theory Spec2Isabelle
  imports Complex_Main "HOL-Library.Word"
begin

section \<open>GPS L1 C/A DLL + PLL tracking block\<close>

text \<open>
  A shallow embedding of \<^verbatim>\<open>gps_l1_ca_dll_pll_tracking_cc.cc\<close>: the constructor,
  \<^verbatim>\<open>start_tracking\<close>, \<^verbatim>\<open>update_local_code\<close>, \<^verbatim>\<open>update_local_carrier\<close> and
  \<^verbatim>\<open>general_work\<close>.

  Numbers. The C++ \<^verbatim>\<open>float\<close> and \<^verbatim>\<open>double\<close> variables the block computes with are
  modelled as reals. In \<^verbatim>\<open>start_tracking\<close>, in the resampling of the local code
  (\<^verbatim>\<open>update_local_code\<close>) and in the scheduling of the next block (lines 438 to 481 of
  \<^verbatim>\<open>general_work\<close>), whose integers (the block length, the chip indices) depend on how
  the float arithmetic rounds, every float operation is rounded by a function \<open>fl\<close>, a
  parameter of the model: the rounding to nearest of single precision is one instance, the
  identity (exact arithmetic) another. The other computations (the pull-in offset, the
  carrier phase, the sample counter in seconds) are exact. A computation that would leave
  the finite numbers (a division by zero) or that C++ leaves undefined (a conversion to
  \<^verbatim>\<open>int\<close> out of range, a read or write outside a buffer) is an error value of the model.
  A value that the block receives from a collaborator and only tests or forwards (the
  correlator outputs, the C/N0 estimate, the lock test) is a \<open>cfloat\<close>, which can be NaN.
  \<^verbatim>\<open>unsigned long\<close> is a 64-bit word, \<^verbatim>\<open>unsigned int\<close> a 32-bit word; an \<^verbatim>\<open>int\<close> is a
  HOL integer whose every assignment from a float is range-checked.

  Collaborators that are not part of the file (the correlator, the discriminators, the
  loop filters, the C/N0 and lock estimators, the PRN code generator) are parameters:
  their results are inputs of the step. Logging, the dump file and the debug second
  counter \<^verbatim>\<open>d_last_seg\<close> are left out.
\<close>

subsection \<open>Floats and the C library functions used\<close>

datatype cfloat = NaN | Fin real

fun isnan :: "cfloat \<Rightarrow> bool" where
  "isnan NaN = True"
| "isnan (Fin x) = False"

text \<open>The comparison \<^verbatim>\<open><\<close> of C++: false as soon as one side is NaN.\<close>

fun fl_less :: "cfloat \<Rightarrow> cfloat \<Rightarrow> bool" where
  "fl_less (Fin a) (Fin b) = (a < b)"
| "fl_less NaN b = False"
| "fl_less (Fin a) NaN = False"

type_synonym gr_complex = "cfloat \<times> cfloat"

definition gr_zero :: gr_complex where
  "gr_zero = (Fin 0, Fin 0)"

text \<open>Truncation towards zero, \<^verbatim>\<open>fmod\<close> (the result has the sign of the dividend; the
  divisor is not zero where the model calls it) and \<^verbatim>\<open>std::round\<close> (halves away from zero;
  \<^verbatim>\<open>boost::math::round\<close> rounds the same way).\<close>

definition c_trunc :: "real \<Rightarrow> int" where
  "c_trunc x = (if 0 \<le> x then \<lfloor>x\<rfloor> else - \<lfloor>- x\<rfloor>)"

definition c_fmod :: "real \<Rightarrow> real \<Rightarrow> real" where
  "c_fmod x y = x - y * of_int (c_trunc (x / y))"

definition c_round :: "real \<Rightarrow> int" where
  "c_round x = (if 0 \<le> x then \<lfloor>x + 1 / 2\<rfloor> else - \<lfloor>- x + 1 / 2\<rfloor>)"

definition in_int_range :: "int \<Rightarrow> bool" where
  "in_int_range k = (- 2147483648 \<le> k \<and> k \<le> 2147483647)"

datatype error =
    Not_finite
  | Int_conversion_undefined
  | Ca_code_out_of_bounds
  | Buffer_overflow

subsection \<open>Constants of \<^verbatim>\<open>GPS_L1_CA.h\<close> and of the file\<close>

text \<open>Modelled from the spec: the header \<^verbatim>\<open>GPS_L1_CA.h\<close> is not among the sources; the
  spec gives GPS_L1_FREQ = 1,575,420,000 Hz, CA_CODE_RATE = 1,023,000 Hz,
  CA_CODE_LENGTH = 1023 chips, and writes 2\<pi> for \<^verbatim>\<open>GPS_TWO_PI\<close>.\<close>

definition GPS_L1_FREQ_HZ :: real where
  "GPS_L1_FREQ_HZ = 1575420000"

definition GPS_L1_CA_CODE_RATE_HZ :: real where
  "GPS_L1_CA_CODE_RATE_HZ = 1023000"

definition GPS_L1_CA_CODE_LENGTH_CHIPS :: real where
  "GPS_L1_CA_CODE_LENGTH_CHIPS = 1023"

definition GPS_TWO_PI :: real where
  "GPS_TWO_PI = 2 * pi"

definition CN0_ESTIMATION_SAMPLES :: int where
  "CN0_ESTIMATION_SAMPLES = 10"

definition MINIMUM_VALID_CN0 :: int where
  "MINIMUM_VALID_CN0 = 25"

definition MAXIMUM_LOCK_FAIL_COUNTER :: int where
  "MAXIMUM_LOCK_FAIL_COUNTER = 200"

subsection \<open>Data\<close>

text \<open>The fields of \<^verbatim>\<open>Gnss_Synchro\<close> that the block reads or writes. The class is declared
  in \<^verbatim>\<open>gnss_synchro.h\<close>, which is not among the sources: the fields are typed by their use
  in the file (the sample stamp is subtracted from an \<^verbatim>\<open>unsigned long\<close>, the other numbers
  are floating point). A field that can receive a NaN from a collaborator is a \<open>cfloat\<close>.\<close>

record gnss_synchro =
  PRN :: nat
  Acq_delay_samples :: real
  Acq_doppler_hz :: real
  Acq_samplestamp_samples :: "64 word"
  Prompt_I :: cfloat
  Prompt_Q :: cfloat
  Tracking_timestamp_secs :: real
  Carrier_phase_rads :: real
  Code_phase_secs :: real
  CN0_dB_hz :: cfloat
  Flag_valid_tracking :: bool

text \<open>Modelled from the spec: the class \<^verbatim>\<open>Gnss_Synchro\<close> and its default constructor
  are not among the sources; the spec calls the record of an unarmed call, which is a
  default-constructed \<^verbatim>\<open>Gnss_Synchro\<close>, empty and zeroed.\<close>

definition default_synchro :: gnss_synchro where
  "default_synchro =
     \<lparr>PRN = 0, Acq_delay_samples = 0, Acq_doppler_hz = 0, Acq_samplestamp_samples = 0,
      Prompt_I = Fin 0, Prompt_Q = Fin 0, Tracking_timestamp_secs = 0, Carrier_phase_rads = 0,
      Code_phase_secs = 0, CN0_dB_hz = Fin 0, Flag_valid_tracking = False\<rparr>"

text \<open>The members of the block. Its header is not among the sources: the members are
  typed by their use in the file (\<open>d_sample_counter\<close> is written to the dump file as an
  \<^verbatim>\<open>unsigned long int\<close>; the lengths and counters are assigned from \<^verbatim>\<open>int\<close> expressions).
  \<open>d_ca_code\<close> is the array of \<^verbatim>\<open>(int)GPS_L1_CA_CODE_LENGTH_CHIPS + 2\<close> = 1025 cells, as a
  function of the index with the bounds checked at every read;
  \<open>d_channel_internal_queue\<close> is the content of the control sink, oldest message first.\<close>

record tracking_cc =
  d_if_freq :: int
  d_fs_in :: int
  d_vector_length :: "32 word"
  d_early_late_spc_chips :: real
  d_ca_code :: "int \<Rightarrow> gr_complex"
  d_Early :: gr_complex
  d_Prompt :: gr_complex
  d_Late :: gr_complex
  d_code_freq_hz :: real
  d_code_phase_step_chips :: real
  d_rem_code_phase_samples :: real
  d_next_rem_code_phase_samples :: real
  d_rem_carr_phase_rad :: real
  d_acc_carrier_phase_rad :: real
  d_carrier_doppler_hz :: real
  d_acq_code_phase_samples :: real
  d_acq_carrier_doppler_hz :: real
  d_code_phase_samples :: real
  d_sample_counter :: "64 word"
  d_sample_counter_seconds :: real
  d_acq_sample_stamp :: "64 word"
  d_enable_tracking :: bool
  d_pull_in :: bool
  d_current_prn_length_samples :: int
  d_next_prn_length_samples :: int
  d_cn0_estimation_counter :: int
  d_Prompt_buffer :: "gr_complex list"
  d_carrier_lock_test :: cfloat
  d_CN0_SNV_dB_Hz :: cfloat
  d_carrier_lock_fail_counter :: int
  d_carrier_lock_threshold :: cfloat
  d_acquisition_gnss_synchro :: gnss_synchro
  d_channel_internal_queue :: "int list"

subsection \<open>The local replica: \<^verbatim>\<open>update_local_code\<close>\<close>

text \<open>\<^verbatim>\<open>associated_chip_index = 1 + round(fmod(t, code_length_chips))\<close>.\<close>

definition chip_index :: "real \<Rightarrow> int" where
  "chip_index t = 1 + c_round (c_fmod t 1023)"

definition in_ca_code :: "int \<Rightarrow> bool" where
  "in_ca_code k = (0 \<le> k \<and> k \<le> 1024)"

text \<open>The loop of \<^verbatim>\<open>update_local_code\<close>: at each position the three arguments of
  \<^verbatim>\<open>fmod\<close> (early, prompt, late), computed in float from \<open>tcode_chips\<close>, which then
  advances by the step, in float too. \<^verbatim>\<open>fmod\<close>, \<^verbatim>\<open>round\<close> and the addition of 1 are exact
  on floats.\<close>

fun tap_arguments ::
  "(real \<Rightarrow> real) \<Rightarrow> real \<Rightarrow> real \<Rightarrow> nat \<Rightarrow> real \<Rightarrow> (real \<times> real \<times> real) list" where
  "tap_arguments fl spc step 0 tcode_chips = []"
| "tap_arguments fl spc step (Suc n) tcode_chips =
     (fl (tcode_chips - spc), tcode_chips, fl (tcode_chips + spc))
       # tap_arguments fl spc step n (fl (tcode_chips + step))"

fun chip_indices :: "real \<times> real \<times> real \<Rightarrow> int \<times> int \<times> int" where
  "chip_indices (e, p, l) = (chip_index e, chip_index p, chip_index l)"

definition code_indices ::
  "(real \<Rightarrow> real) \<Rightarrow> real \<Rightarrow> real \<Rightarrow> nat \<Rightarrow> real \<Rightarrow> (int \<times> int \<times> int) list" where
  "code_indices fl spc step n tcode_chips =
     map chip_indices (tap_arguments fl spc step n tcode_chips)"

fun indices_in_bounds :: "int \<times> int \<times> int \<Rightarrow> bool" where
  "indices_in_bounds (e, p, l) = (in_ca_code e \<and> in_ca_code p \<and> in_ca_code l)"

fun read_chips :: "(int \<Rightarrow> gr_complex) \<Rightarrow> int \<times> int \<times> int \<Rightarrow> gr_complex \<times> gr_complex \<times> gr_complex" where
  "read_chips ca (e, p, l) = (ca e, ca p, ca l)"

text \<open>The early, prompt and late replicas of a block of \<open>n\<close> samples that starts at
  \<open>tcode_chips\<close>, position by position; \<open>None\<close> when an index leaves the array.\<close>

definition local_replicas ::
  "(real \<Rightarrow> real) \<Rightarrow> (int \<Rightarrow> gr_complex) \<Rightarrow> real \<Rightarrow> real \<Rightarrow> nat \<Rightarrow> real
     \<Rightarrow> (gr_complex \<times> gr_complex \<times> gr_complex) list option" where
  "local_replicas fl ca spc step n tcode_chips =
     (if list_all indices_in_bounds (code_indices fl spc step n tcode_chips)
      then Some (map (read_chips ca) (code_indices fl spc step n tcode_chips))
      else None)"

text \<open>The replica buffers hold \<^verbatim>\<open>2 * d_vector_length\<close> samples each. The sampling
  frequency, a \<^verbatim>\<open>long\<close>, is converted to float before the division.\<close>

definition update_local_code ::
  "(real \<Rightarrow> real) \<Rightarrow> tracking_cc \<Rightarrow> error + (gr_complex \<times> gr_complex \<times> gr_complex) list" where
  "update_local_code fl s =
     (if fl (real_of_int (d_fs_in s)) = 0 then Inl Not_finite
      else
        let rem_code_phase_chips =
              fl (d_rem_code_phase_samples s
                  * fl (d_code_freq_hz s / fl (real_of_int (d_fs_in s))));
            tcode_chips = - rem_code_phase_chips
        in if 2 * uint (d_vector_length s) < d_current_prn_length_samples s
           then Inl Buffer_overflow
           else
             (case local_replicas fl (d_ca_code s) (d_early_late_spc_chips s)
                     (d_code_phase_step_chips s) (nat (d_current_prn_length_samples s)) tcode_chips of
                None \<Rightarrow> Inl Ca_code_out_of_bounds
              | Some epl \<Rightarrow> Inr epl))"

subsection \<open>The constructor\<close>

text \<open>The constructor assigns some members and leaves the others as the allocation
  holds them: it is a function of the raw object. \<^verbatim>\<open>new gr_complex[n]\<close> runs the default
  constructor of \<^verbatim>\<open>std::complex\<close>, so that \<open>d_ca_code\<close> and \<open>d_Prompt_buffer\<close> start at
  zero. The loop bandwidths go to the filters, which are collaborators.\<close>

definition Gps_L1_Ca_Dll_Pll_Tracking_cc ::
  "int \<Rightarrow> int \<Rightarrow> 32 word \<Rightarrow> real \<Rightarrow> tracking_cc \<Rightarrow> tracking_cc" where
  "Gps_L1_Ca_Dll_Pll_Tracking_cc if_freq fs_in vector_length early_late_space_chips raw =
     raw\<lparr>d_if_freq := if_freq,
         d_fs_in := fs_in,
         d_vector_length := vector_length,
         d_early_late_spc_chips := early_late_space_chips,
         d_ca_code := (\<lambda>i. gr_zero),
         d_code_freq_hz := GPS_L1_CA_CODE_RATE_HZ,
         d_rem_code_phase_samples := 0,
         d_rem_carr_phase_rad := 0,
         d_sample_counter := 0,
         d_sample_counter_seconds := 0,
         d_acq_sample_stamp := 0,
         d_enable_tracking := False,
         d_pull_in := False,
         d_current_prn_length_samples := sint vector_length,
         d_cn0_estimation_counter := 0,
         d_Prompt_buffer := replicate 10 gr_zero,
         d_carrier_lock_test := Fin 1,
         d_CN0_SNV_dB_Hz := Fin 0,
         d_carrier_lock_fail_counter := 0,
         d_carrier_lock_threshold := Fin 5\<rparr>"

definition set_gnss_synchro :: "gnss_synchro \<Rightarrow> tracking_cc \<Rightarrow> tracking_cc" where
  "set_gnss_synchro p_gnss_synchro s = s\<lparr>d_acquisition_gnss_synchro := p_gnss_synchro\<rparr>"

subsection \<open>\<^verbatim>\<open>start_tracking\<close>\<close>

text \<open>\<open>code_gen_conplex prn k\<close> is chip \<open>k\<close> (from 0 to 1022) of the code of satellite
  \<open>prn\<close>, the result of the collaborator of that name; it fills cells 1 to 1023, and the
  two sentinels are copied from cells 1023 and 1.\<close>

definition fill_ca_code :: "(int \<Rightarrow> gr_complex) \<Rightarrow> (int \<Rightarrow> gr_complex) \<Rightarrow> int \<Rightarrow> gr_complex" where
  "fill_ca_code chips old =
     (let ca1 = (\<lambda>i. if 1 \<le> i \<and> i \<le> 1023 then chips (i - 1) else old i);
          ca2 = ca1(0 := ca1 1023)
      in ca2(1024 := ca2 1))"

definition start_tracking ::
  "(real \<Rightarrow> real) \<Rightarrow> (nat \<Rightarrow> int \<Rightarrow> gr_complex) \<Rightarrow> tracking_cc \<Rightarrow> error + tracking_cc" where
  "start_tracking fl code_gen_conplex s =
     (let acq_code_phase_samples = Acq_delay_samples (d_acquisition_gnss_synchro s);
          acq_carrier_doppler_hz = Acq_doppler_hz (d_acquisition_gnss_synchro s);
          acq_sample_stamp = Acq_samplestamp_samples (d_acquisition_gnss_synchro s);
          acq_trk_diff_samples = d_sample_counter s - acq_sample_stamp;
          fs = fl (real_of_int (d_fs_in s));
          radial_velocity = fl ((GPS_L1_FREQ_HZ + acq_carrier_doppler_hz) / GPS_L1_FREQ_HZ);
          code_freq_hz = fl (radial_velocity * GPS_L1_CA_CODE_RATE_HZ);
          T_prn_true_seconds = fl (GPS_L1_CA_CODE_LENGTH_CHIPS / GPS_L1_CA_CODE_RATE_HZ);
          T_prn_true_samples = fl (T_prn_true_seconds * fs)
      in if fs = 0 \<or> code_freq_hz = 0 \<or> T_prn_true_seconds = 0 \<or> T_prn_true_samples = 0
         then Inl Not_finite
         else
           let acq_trk_diff_seconds = fl (fl (real (unat acq_trk_diff_samples)) / fs);
               T_chip_mod_seconds = fl (1 / code_freq_hz);
               T_prn_mod_seconds = fl (T_chip_mod_seconds * GPS_L1_CA_CODE_LENGTH_CHIPS);
               T_prn_mod_samples = fl (T_prn_mod_seconds * fs);
               T_prn_diff_seconds = fl (T_prn_true_seconds - T_prn_mod_seconds);
               N_prn_diff = fl (acq_trk_diff_seconds / T_prn_true_seconds);
               fmod_phase = c_fmod (fl (acq_code_phase_samples
                                        + fl (fl (T_prn_diff_seconds * N_prn_diff) * fs)))
                              T_prn_true_samples;
               corrected_acq_phase_samples =
                 (if fmod_phase < 0 then fl (T_prn_mod_samples + fmod_phase) else fmod_phase)
           in if in_int_range (c_round T_prn_mod_samples)
              then Inr (s\<lparr>d_acq_code_phase_samples := corrected_acq_phase_samples,
                          d_acq_carrier_doppler_hz := acq_carrier_doppler_hz,
                          d_acq_sample_stamp := acq_sample_stamp,
                          d_code_freq_hz := code_freq_hz,
                          d_next_prn_length_samples := c_round T_prn_mod_samples,
                          d_carrier_doppler_hz := acq_carrier_doppler_hz,
                          d_ca_code := fill_ca_code (code_gen_conplex (PRN (d_acquisition_gnss_synchro s)))
                                         (d_ca_code s),
                          d_carrier_lock_fail_counter := 0,
                          d_rem_code_phase_samples := 0,
                          d_rem_carr_phase_rad := 0,
                          d_next_rem_code_phase_samples := 0,
                          d_acc_carrier_phase_rad := 0,
                          d_code_phase_samples := corrected_acq_phase_samples,
                          d_pull_in := True,
                          d_enable_tracking := True\<rparr>)
              else Inl Int_conversion_undefined)"

subsection \<open>\<^verbatim>\<open>update_local_carrier\<close>\<close>

text \<open>The loop adds the phase step once per sample; the samples of the carrier replica go
  to the correlator only. The replica buffer holds \<^verbatim>\<open>2 * d_vector_length\<close> samples.\<close>

fun carrier_phase_loop :: "nat \<Rightarrow> real \<Rightarrow> real \<Rightarrow> real" where
  "carrier_phase_loop 0 phase_step_rad phase_rad = phase_rad"
| "carrier_phase_loop (Suc n) phase_step_rad phase_rad =
     carrier_phase_loop n phase_step_rad (phase_rad + phase_step_rad)"

definition update_local_carrier :: "tracking_cc \<Rightarrow> error + tracking_cc" where
  "update_local_carrier s =
     (if d_fs_in s = 0 then Inl Not_finite
      else if 2 * uint (d_vector_length s) < d_current_prn_length_samples s then Inl Buffer_overflow
      else
        let phase_step_rad = GPS_TWO_PI * d_carrier_doppler_hz s / real_of_int (d_fs_in s);
            phase_rad = carrier_phase_loop (nat (d_current_prn_length_samples s)) phase_step_rad
                          (d_rem_carr_phase_rad s);
            rem_carr_phase_rad = c_fmod phase_rad GPS_TWO_PI
        in Inr (s\<lparr>d_rem_carr_phase_rad := rem_carr_phase_rad,
                   d_acc_carrier_phase_rad := d_acc_carrier_phase_rad s + rem_carr_phase_rad\<rparr>))"

subsection \<open>\<^verbatim>\<open>general_work\<close>\<close>

text \<open>What one call receives: the number of available input samples, the content of the
  output item before the call, and the results of the collaborators called in the block:
  the correlator, the two loop filters (fed by the discriminators), the C/N0 estimator and
  the carrier lock detector.\<close>

record work_in =
  ninput_items :: int
  out_slot :: gnss_synchro
  corr_Early :: gr_complex
  corr_Prompt :: gr_complex
  corr_Late :: gr_complex
  carr_nco :: real
  code_nco :: real
  CN0_SNV :: cfloat
  lock_detector :: cfloat

text \<open>What one call does to the streams: the argument of \<^verbatim>\<open>consume_each\<close> (called once on
  every path), the returned number of output items and the content of the output item
  after the call.\<close>

record work_out =
  consumed :: int
  produced :: int
  out0 :: gnss_synchro

text \<open>Lines 365 to 387: the alignment of the first armed call. The output item is not
  assigned.\<close>

definition pull_in_alignment :: "work_in \<Rightarrow> tracking_cc \<Rightarrow> error + tracking_cc \<times> work_out" where
  "pull_in_alignment inp s =
     (let acq_to_trk_delay_samples =
            sint (ucast (d_sample_counter s - d_acq_sample_stamp s) :: 32 word);
          next_len = real_of_int (d_next_prn_length_samples s)
      in if d_next_prn_length_samples s = 0 \<or> d_fs_in s = 0 then Inl Not_finite
         else
           let acq_trk_shif_correction_samples =
                 next_len - c_fmod (real_of_int acq_to_trk_delay_samples) next_len;
               samples_offset =
                 c_round (d_acq_code_phase_samples s + acq_trk_shif_correction_samples)
           in if in_int_range samples_offset
              then Inr (s\<lparr>d_sample_counter_seconds :=
                            d_sample_counter_seconds s
                              + real_of_int samples_offset / real_of_int (d_fs_in s),
                          d_sample_counter := d_sample_counter s + word_of_int samples_offset,
                          d_pull_in := False\<rparr>,
                        \<lparr>consumed = samples_offset, produced = 1, out0 = out_slot inp\<rparr>)
              else Inl Int_conversion_undefined)"

text \<open>Lines 417 to 436: the Prompt output is NaN.\<close>

definition nan_samples :: "work_in \<Rightarrow> tracking_cc \<Rightarrow> tracking_cc \<times> work_out" where
  "nan_samples inp s =
     (let samples_available = ninput_items inp
      in (s\<lparr>d_sample_counter := d_sample_counter s + word_of_int samples_available\<rparr>,
          \<lparr>consumed = samples_available, produced = 1,
           out0 = (d_acquisition_gnss_synchro s)
                    \<lparr>Prompt_I := Fin 0,
                     Prompt_Q := Fin 0,
                     Tracking_timestamp_secs := d_sample_counter_seconds s,
                     Carrier_phase_rads := 0,
                     Code_phase_secs := 0,
                     CN0_dB_hz := Fin 0,
                     Flag_valid_tracking := False\<rparr>\<rparr>))"

text \<open>Lines 456 to 464: the length in samples of a code period at the code frequency,
  and that length plus the residual of the block before, each operation rounded to
  float.\<close>

definition T_prn_samples :: "(real \<Rightarrow> real) \<Rightarrow> real \<Rightarrow> int \<Rightarrow> real" where
  "T_prn_samples fl code_freq_hz fs_in =
     (let T_chip_seconds = fl (1 / code_freq_hz);
          T_prn_seconds = fl (T_chip_seconds * GPS_L1_CA_CODE_LENGTH_CHIPS)
      in fl (T_prn_seconds * fl (real_of_int fs_in)))"

definition K_blk_samples :: "(real \<Rightarrow> real) \<Rightarrow> real \<Rightarrow> int \<Rightarrow> real \<Rightarrow> real" where
  "K_blk_samples fl code_freq_hz fs_in rem_code_phase_samples =
     fl (T_prn_samples fl code_freq_hz fs_in + rem_code_phase_samples)"

text \<open>Lines 438 to 481: the NCO commands and the length of the next block.\<close>

definition block_length_scheduler ::
  "(real \<Rightarrow> real) \<Rightarrow> work_in \<Rightarrow> tracking_cc \<Rightarrow> error + tracking_cc" where
  "block_length_scheduler fl inp s =
     (let carrier_doppler_hz = fl (d_acq_carrier_doppler_hz s + carr_nco inp);
          code_freq_hz = fl (GPS_L1_CA_CODE_RATE_HZ - code_nco inp);
          fs = fl (real_of_int (d_fs_in s));
          T_prn_true_seconds = fl (GPS_L1_CA_CODE_LENGTH_CHIPS / GPS_L1_CA_CODE_RATE_HZ);
          T_prn_true_samples = fl (T_prn_true_seconds * fs)
      in if code_freq_hz = 0 \<or> fs = 0 \<or> T_prn_true_samples = 0 then Inl Not_finite
         else
           let code_phase_step_chips = fl (code_freq_hz / fs);
               rem_code_phase_samples = d_next_rem_code_phase_samples s;
               K_blk = K_blk_samples fl code_freq_hz (d_fs_in s) rem_code_phase_samples;
               code_phase1 =
                 fl (fl (d_code_phase_samples s + T_prn_samples fl code_freq_hz (d_fs_in s))
                     - T_prn_true_samples);
               code_phase2 =
                 (if code_phase1 < 0 then fl (T_prn_true_samples + code_phase1) else code_phase1);
               code_phase_samples = c_fmod code_phase2 T_prn_true_samples;
               next_prn_length_samples = c_round K_blk
           in if in_int_range next_prn_length_samples
              then Inr (s\<lparr>d_carrier_doppler_hz := carrier_doppler_hz,
                          d_code_freq_hz := code_freq_hz,
                          d_code_phase_step_chips := code_phase_step_chips,
                          d_rem_code_phase_samples := rem_code_phase_samples,
                          d_code_phase_samples := code_phase_samples,
                          d_next_prn_length_samples := next_prn_length_samples,
                          d_next_rem_code_phase_samples :=
                            fl (K_blk - fl (real_of_int next_prn_length_samples))\<rparr>)
              else Inl Int_conversion_undefined)"

text \<open>Lines 500 to 507: the test that counts a failure, on the lock test and the
  threshold, and the counter after it.\<close>

definition carrier_lock_fails :: "cfloat \<Rightarrow> cfloat \<Rightarrow> bool" where
  "carrier_lock_fails carrier_lock_test carrier_lock_threshold =
     (fl_less carrier_lock_test carrier_lock_threshold
      \<or> fl_less (Fin (real_of_int MINIMUM_VALID_CN0)) carrier_lock_test)"

definition count_lock_fail :: "bool \<Rightarrow> int \<Rightarrow> int" where
  "count_lock_fail fails carrier_lock_fail_counter =
     (if fails then carrier_lock_fail_counter + 1
      else if 0 < carrier_lock_fail_counter then carrier_lock_fail_counter - 1
      else carrier_lock_fail_counter)"

text \<open>Lines 487 to 518. The buffer of ten Prompt values is written at the counter; when
  the counter has reached ten the estimators run on the buffer (the Prompt value of that
  call is not stored), the failure counter is updated and, above
  \<^verbatim>\<open>MAXIMUM_LOCK_FAIL_COUNTER\<close>, the loss of lock is notified.\<close>

definition cn0_and_lock_detectors :: "work_in \<Rightarrow> tracking_cc \<Rightarrow> error + tracking_cc" where
  "cn0_and_lock_detectors inp s =
     (if d_cn0_estimation_counter s < CN0_ESTIMATION_SAMPLES
      then (if d_cn0_estimation_counter s < 0 then Inl Buffer_overflow
            else Inr (s\<lparr>d_Prompt_buffer :=
                          (d_Prompt_buffer s)[nat (d_cn0_estimation_counter s) := d_Prompt s],
                        d_cn0_estimation_counter := d_cn0_estimation_counter s + 1\<rparr>))
      else
        let s1 = s\<lparr>d_cn0_estimation_counter := 0,
                   d_CN0_SNV_dB_Hz := CN0_SNV inp,
                   d_carrier_lock_test := lock_detector inp\<rparr>;
            fail_counter =
              count_lock_fail
                (carrier_lock_fails (d_carrier_lock_test s1) (d_carrier_lock_threshold s1))
                (d_carrier_lock_fail_counter s1)
        in if MAXIMUM_LOCK_FAIL_COUNTER < fail_counter
           then Inr (s1\<lparr>d_channel_internal_queue := d_channel_internal_queue s1 @ [3],
                        d_carrier_lock_fail_counter := 0,
                        d_enable_tracking := False\<rparr>)
           else Inr (s1\<lparr>d_carrier_lock_fail_counter := fail_counter\<rparr>))"

text \<open>Lines 522 to 528: the record of a tracked block.\<close>

definition tracking_record :: "tracking_cc \<Rightarrow> gnss_synchro" where
  "tracking_record s =
     (d_acquisition_gnss_synchro s)
       \<lparr>Prompt_I := fst (d_Prompt s),
        Prompt_Q := snd (d_Prompt s),
        Tracking_timestamp_secs := d_sample_counter_seconds s,
        Carrier_phase_rads := d_acc_carrier_phase_rad s,
        Code_phase_secs := d_code_phase_samples s * (1 / real_of_int (d_fs_in s)),
        CN0_dB_hz := d_CN0_SNV_dB_Hz s\<rparr>"

text \<open>Lines 624 to 627: the end of every call that did not return before.\<close>

definition consume_and_count :: "tracking_cc \<Rightarrow> gnss_synchro \<Rightarrow> error + tracking_cc \<times> work_out" where
  "consume_and_count s out =
     (if d_fs_in s = 0 then Inl Not_finite
      else Inr (s\<lparr>d_sample_counter_seconds :=
                    d_sample_counter_seconds s
                      + real_of_int (d_current_prn_length_samples s) / real_of_int (d_fs_in s),
                  d_sample_counter :=
                    d_sample_counter s + word_of_int (d_current_prn_length_samples s)\<rparr>,
                \<lparr>consumed = d_current_prn_length_samples s, produced = 1, out0 = out\<rparr>))"

definition tracked_block ::
  "(real \<Rightarrow> real) \<Rightarrow> work_in \<Rightarrow> tracking_cc \<Rightarrow> error + tracking_cc \<times> work_out" where
  "tracked_block fl inp s =
     (case block_length_scheduler fl inp s of
        Inl e \<Rightarrow> Inl e
      | Inr s1 \<Rightarrow>
          (case cn0_and_lock_detectors inp s1 of
             Inl e \<Rightarrow> Inl e
           | Inr s2 \<Rightarrow> consume_and_count s2 (tracking_record s2)))"

definition correlate ::
  "(real \<Rightarrow> real) \<Rightarrow> work_in \<Rightarrow> tracking_cc \<Rightarrow> error + tracking_cc" where
  "correlate fl inp s =
     (case update_local_code fl s of
        Inl e \<Rightarrow> Inl e
      | Inr epl \<Rightarrow>
          (case update_local_carrier s of
             Inl e \<Rightarrow> Inl e
           | Inr s1 \<Rightarrow>
               Inr (s1\<lparr>d_Early := corr_Early inp,
                       d_Prompt := corr_Prompt inp,
                       d_Late := corr_Late inp\<rparr>)))"

definition general_work ::
  "(real \<Rightarrow> real) \<Rightarrow> work_in \<Rightarrow> tracking_cc \<Rightarrow> error + tracking_cc \<times> work_out" where
  "general_work fl inp s =
     (if d_enable_tracking s
      then (if d_pull_in s then pull_in_alignment inp s
            else
              (case correlate fl inp
                      (s\<lparr>d_current_prn_length_samples := d_next_prn_length_samples s\<rparr>) of
                 Inl e \<Rightarrow> Inl e
               | Inr s1 \<Rightarrow>
                   if isnan (fst (d_Prompt s1)) \<or> isnan (snd (d_Prompt s1))
                   then Inr (nan_samples inp s1)
                   else tracked_block fl inp s1))
      else consume_and_count
             (s\<lparr>d_Early := gr_zero, d_Prompt := gr_zero, d_Late := gr_zero\<rparr>)
             default_synchro)"

text \<open>A sequence of calls, one input each, stopping at the first error.\<close>

fun stream_steps ::
  "(real \<Rightarrow> real) \<Rightarrow> work_in list \<Rightarrow> tracking_cc \<Rightarrow> error + tracking_cc \<times> work_out list" where
  "stream_steps fl [] s = Inr (s, [])"
| "stream_steps fl (inp # inps) s =
     (case general_work fl inp s of
        Inl e \<Rightarrow> Inl e
      | Inr (s1, out) \<Rightarrow>
          (case stream_steps fl inps s1 of
             Inl e \<Rightarrow> Inl e
           | Inr (s2, outs) \<Rightarrow> Inr (s2, out # outs)))"

subsection \<open>Predicates and concrete objects used below\<close>





text \<open>A property of binary floating point that the bound on the residual rests on: a
  float \<open>k\<close>, the integer nearest to it and their difference are floats, so that line 481
  computes \<open>k - round k\<close> without rounding. (Below \<open>2 ^ 23\<close> in magnitude the integer
  and the difference fit the significand; from there on \<open>k\<close> is an integer itself.)\<close>

definition exact_remainder :: "(real \<Rightarrow> real) \<Rightarrow> bool" where
  "exact_remainder fl =
     (\<forall>x. fl (fl x - fl (real_of_int (c_round (fl x)))) = fl x - real_of_int (c_round (fl x)))"

text \<open>A float is not moved by a further rounding.\<close>

definition fixes_floats :: "(real \<Rightarrow> real) \<Rightarrow> bool" where
  "fixes_floats fl = (\<forall>x. fl (fl x) = fl x)"

text \<open>The rule of the block length: the length of the next block is the round of the
  float \<open>K_blk_samples\<close> of the stored code frequency and the stored residual, and the
  residual carried to the next block is at most a half sample.\<close>

definition length_rule :: "(real \<Rightarrow> real) \<Rightarrow> tracking_cc \<Rightarrow> bool" where
  "length_rule fl s =
     (d_next_prn_length_samples s =
        c_round (K_blk_samples fl (d_code_freq_hz s) (d_fs_in s) (d_rem_code_phase_samples s))
      \<and> - 1 / 2 \<le> d_next_rem_code_phase_samples s
      \<and> d_next_rem_code_phase_samples s \<le> 1 / 2)"

text \<open>Properties of a rounding to nearest that keep the chip indices in bounds: it is
  monotone and the numbers -1, -1/2, 0, 1/2 and 1 are floats.\<close>

definition keeps_order :: "(real \<Rightarrow> real) \<Rightarrow> bool" where
  "keeps_order fl =
     (mono fl \<and> fl (- 1) = - 1 \<and> fl (- 1 / 2) = - 1 / 2 \<and> fl 0 = 0 \<and> fl (1 / 2) = 1 / 2
      \<and> fl 1 = 1)"

text \<open>A code whose first chip is +1 and whose other chips are -1, and the array that
  \<^verbatim>\<open>start_tracking\<close> builds from it.\<close>

definition example_chips :: "int \<Rightarrow> gr_complex" where
  "example_chips k = (if k = 0 then (Fin 1, Fin 0) else (Fin (- 1), Fin 0))"

definition example_ca :: "int \<Rightarrow> gr_complex" where
  "example_ca = fill_ca_code example_chips (\<lambda>i. gr_zero)"

text \<open>A raw allocation: what the members hold before the constructor runs.\<close>

definition raw_object :: tracking_cc where
  "raw_object =
     \<lparr>d_if_freq = 0, d_fs_in = 0, d_vector_length = 0, d_early_late_spc_chips = 0,
      d_ca_code = (\<lambda>i. gr_zero), d_Early = gr_zero, d_Prompt = gr_zero, d_Late = gr_zero,
      d_code_freq_hz = 0, d_code_phase_step_chips = 1, d_rem_code_phase_samples = 0,
      d_next_rem_code_phase_samples = 0, d_rem_carr_phase_rad = 0, d_acc_carrier_phase_rad = 0,
      d_carrier_doppler_hz = 0, d_acq_code_phase_samples = 0, d_acq_carrier_doppler_hz = 0,
      d_code_phase_samples = 0, d_sample_counter = 0, d_sample_counter_seconds = 0,
      d_acq_sample_stamp = 0, d_enable_tracking = False, d_pull_in = False,
      d_current_prn_length_samples = 0, d_next_prn_length_samples = 0,
      d_cn0_estimation_counter = 0, d_Prompt_buffer = [], d_carrier_lock_test = Fin 0,
      d_CN0_SNV_dB_Hz = Fin 0, d_carrier_lock_fail_counter = 0, d_carrier_lock_threshold = Fin 0,
      d_acquisition_gnss_synchro = default_synchro, d_channel_internal_queue = []\<rparr>"

text \<open>An acquisition result for satellite 1 (no Doppler, no delay, stamped at sample
  0), a record left in the output item by an earlier call, and the inputs of a call: 1048
  samples available, a Prompt output of 1, no NCO correction, estimators at 0.\<close>

definition acquired1 :: gnss_synchro where
  "acquired1 = default_synchro\<lparr>PRN := 1\<rparr>"

definition stale_record :: gnss_synchro where
  "stale_record = default_synchro\<lparr>PRN := 7, Prompt_I := Fin 3, Flag_valid_tracking := True\<rparr>"

definition idle_in :: work_in where
  "idle_in =
     \<lparr>ninput_items = 1048, out_slot = stale_record,
      corr_Early = gr_zero, corr_Prompt = (Fin 1, Fin 0), corr_Late = gr_zero,
      carr_nco = 0, code_nco = 0, CN0_SNV = Fin 0, lock_detector = Fin 0\<rparr>"

definition tie_in :: work_in where
  "tie_in = idle_in\<lparr>code_nco := - 25576\<rparr>"

definition nan_in :: work_in where
  "nan_in = idle_in\<lparr>corr_Prompt := (NaN, Fin 0)\<rparr>"

definition weak_in :: work_in where
  "weak_in = idle_in\<lparr>CN0_SNV := Fin 10, lock_detector := Fin 10\<rparr>"

definition strong_in :: work_in where
  "strong_in = idle_in\<lparr>CN0_SNV := Fin 40, lock_detector := Fin 30\<rparr>"

text \<open>A block sampling at 524288 Hz, with blocks of 524 samples: as constructed; after
  \<^verbatim>\<open>set_gnss_synchro\<close> and \<^verbatim>\<open>start_tracking\<close>; after the pull-in call; and, in exact
  arithmetic, after one tracked block whose code NCO command is -25576 Hz.\<close>

definition new_block :: tracking_cc where
  "new_block = Gps_L1_Ca_Dll_Pll_Tracking_cc 0 524288 524 (1 / 2) raw_object"

definition armed_block :: tracking_cc where
  "armed_block =
     new_block\<lparr>d_acquisition_gnss_synchro := acquired1, d_ca_code := example_ca,
                d_next_prn_length_samples := 524,
                d_enable_tracking := True, d_pull_in := True\<rparr>"

definition aligned_block :: tracking_cc where
  "aligned_block =
     armed_block\<lparr>d_pull_in := False, d_sample_counter := 524,
                  d_sample_counter_seconds := 524 / 524288\<rparr>"

definition tracked_tie :: tracking_cc where
  "tracked_tie =
     aligned_block\<lparr>d_Prompt := (Fin 1, Fin 0), d_code_freq_hz := 1048576,
                    d_code_phase_step_chips := 2, d_code_phase_samples := 1023 / 2,
                    d_next_prn_length_samples := 512,
                    d_next_rem_code_phase_samples := - 1 / 2,
                    d_Prompt_buffer := (replicate 10 gr_zero)[0 := (Fin 1, Fin 0)],
                    d_cn0_estimation_counter := 1, d_sample_counter := 1048,
                    d_sample_counter_seconds := 1048 / 524288\<rparr>"

definition tracked_tie_out :: work_out where
  "tracked_tie_out =
     \<lparr>consumed = 524, produced = 1,
      out0 = acquired1\<lparr>Prompt_I := Fin 1, Prompt_Q := Fin 0,
                        Tracking_timestamp_secs := 524 / 524288,
                        Code_phase_secs := 1023 / 2 * (1 / 524288)\<rparr>\<rparr>"

text \<open>The aligned block when the Prompt buffer has just been filled, with 7 and with 200
  failures counted.\<close>

definition lock_test_block :: tracking_cc where
  "lock_test_block =
     aligned_block\<lparr>d_cn0_estimation_counter := 10, d_carrier_lock_fail_counter := 7\<rparr>"

definition failing_block :: tracking_cc where
  "failing_block =
     aligned_block\<lparr>d_cn0_estimation_counter := 10, d_carrier_lock_fail_counter := 200\<rparr>"

text \<open>A block sampling at 4.092 MHz that has run one unarmed call of 4092 samples and is
  bound to an acquisition stamped at sample 3092 with a Doppler of -5 kHz.\<close>

definition acquired_m5000 :: gnss_synchro where
  "acquired_m5000 =
     default_synchro\<lparr>PRN := 1, Acq_doppler_hz := - 5000, Acq_samplestamp_samples := 3092\<rparr>"

definition late_block :: tracking_cc where
  "late_block =
     (Gps_L1_Ca_Dll_Pll_Tracking_cc 0 4092000 4092 (1 / 2) raw_object)
       \<lparr>d_acquisition_gnss_synchro := acquired_m5000,
        d_sample_counter := 4092, d_sample_counter_seconds := 4092 / 4092000\<rparr>"

text \<open>A block sampling at 2.046 MHz (two samples per chip, blocks of 2046 samples) that
  was constructed over an allocation in which the member \<open>d_code_phase_step_chips\<close> held
  -2: as constructed, after \<^verbatim>\<open>set_gnss_synchro\<close> and \<^verbatim>\<open>start_tracking\<close>, and after the
  pull-in call. Neither the constructor nor \<^verbatim>\<open>start_tracking\<close> assigns that member.\<close>

definition unset_step_new :: tracking_cc where
  "unset_step_new =
     Gps_L1_Ca_Dll_Pll_Tracking_cc 0 2046000 2046 (1 / 2)
       (raw_object\<lparr>d_code_phase_step_chips := - 2\<rparr>)"

definition unset_step_armed :: tracking_cc where
  "unset_step_armed =
     unset_step_new\<lparr>d_acquisition_gnss_synchro := acquired1, d_ca_code := example_ca,
                     d_next_prn_length_samples := 2046,
                     d_enable_tracking := True, d_pull_in := True\<rparr>"

definition unset_step_aligned :: tracking_cc where
  "unset_step_aligned =
     unset_step_armed\<lparr>d_pull_in := False, d_sample_counter := 2046,
                       d_sample_counter_seconds := 2046 / 2046000\<rparr>"

section \<open>Properties\<close>

subsection \<open>\<^verbatim>\<open>fmod\<close>, \<^verbatim>\<open>round\<close> and the chip index\<close>

lemma c_fmod_nonneg:
  assumes "0 \<le> x" and "0 < y"
  shows "0 \<le> c_fmod x y \<and> c_fmod x y < y"
proof -
  have q: "0 \<le> x / y" using assms by simp
  have 1: "of_int \<lfloor>x / y\<rfloor> \<le> x / y" by (rule of_int_floor_le)
  have 2: "x / y < of_int \<lfloor>x / y\<rfloor> + 1" by linarith
  have "of_int \<lfloor>x / y\<rfloor> * y \<le> x"
    using 1 pos_le_divide_eq [OF assms(2), of "of_int \<lfloor>x / y\<rfloor>" x] by blast
  moreover have "x < (of_int \<lfloor>x / y\<rfloor> + 1) * y"
    using 2 pos_divide_less_eq [OF assms(2), of x "of_int \<lfloor>x / y\<rfloor> + 1"] by blast
  ultimately show ?thesis using q by (simp add: c_fmod_def c_trunc_def algebra_simps)
qed

lemma c_fmod_small_neg:
  assumes "- y < x" and "x < 0" and "0 < y"
  shows "c_fmod x y = x"
proof -
  have a: "0 < - (x / y)" using assms by (simp add: divide_neg_pos)
  have "- 1 < x / y"
    using assms pos_less_divide_eq [OF assms(3), of "- 1" x] by simp
  then have b: "- (x / y) < 1" by simp
  have "\<lfloor>- (x / y)\<rfloor> = 0" using a b by (simp add: floor_eq_iff)
  moreover have "\<not> 0 \<le> x / y" using a by simp
  ultimately show ?thesis by (simp add: c_fmod_def c_trunc_def)
qed


lemma chip_index_nonneg_arg:
  assumes "0 \<le> t"
  shows "1 \<le> chip_index t \<and> chip_index t \<le> 1024"
proof -
  have r: "0 \<le> c_fmod t 1023 \<and> c_fmod t 1023 < 1023" using assms by (simp add: c_fmod_nonneg)
  then have "0 \<le> \<lfloor>c_fmod t 1023 + 1 / 2\<rfloor>" "\<lfloor>c_fmod t 1023 + 1 / 2\<rfloor> \<le> 1023"
    by (simp_all add: le_floor_iff floor_le_iff)
  then show ?thesis using r by (simp add: chip_index_def c_round_def)
qed

lemma chip_index_low:
  assumes "- 3 / 2 < t" and "t < - 1 / 2"
  shows "chip_index t = 0"
proof -
  have f: "c_fmod t 1023 = t" using assms by (simp add: c_fmod_small_neg)
  have "\<lfloor>- t + 1 / 2\<rfloor> = 1" using assms by (simp add: floor_eq_iff)
  then show ?thesis using f assms by (simp add: chip_index_def c_round_def)
qed

lemma chip_index_minus_half: "chip_index (- 1 / 2) = 0"
  by (simp add: chip_index_def c_round_def c_fmod_def c_trunc_def)

lemma chip_index_high:
  assumes "- 1 / 2 < t" and "t < 0"
  shows "chip_index t = 1"
proof -
  have f: "c_fmod t 1023 = t" using assms by (simp add: c_fmod_small_neg)
  have "\<lfloor>- t + 1 / 2\<rfloor> = 0" using assms by (simp add: floor_eq_iff)
  then show ?thesis using f assms by (simp add: chip_index_def c_round_def)
qed





lemma chip_index_in_ca_code:
  assumes "- 3 / 2 < t"
  shows "in_ca_code (chip_index t)"
proof -
  consider "0 \<le> t" | "t < - 1 / 2" | "t = - 1 / 2" | "- 1 / 2 < t" "t < 0" by linarith
  then show ?thesis
  proof cases
    case 1
    then show ?thesis using chip_index_nonneg_arg [of t] by (simp add: in_ca_code_def)
  next
    case 2
    then show ?thesis using assms chip_index_low [of t] by (simp add: in_ca_code_def)
  next
    case 3
    then show ?thesis using chip_index_minus_half by (simp add: in_ca_code_def)
  next
    case 4
    then show ?thesis using chip_index_high [of t] by (simp add: in_ca_code_def)
  qed
qed

lemma keeps_order_exact: "keeps_order (\<lambda>x. x)"
  by (simp add: keeps_order_def mono_def)

lemma exact_remainder_exact: "exact_remainder (\<lambda>x. x)"
  by (simp add: exact_remainder_def)

lemma code_indices_in_bounds:
  assumes "keeps_order fl" and "0 \<le> step" and "0 \<le> spc" and "spc \<le> 1 / 2"
    and "- 1 / 2 \<le> t"
  shows "list_all indices_in_bounds (code_indices fl spc step n t)"
  using assms(5)
proof (induction n arbitrary: t)
  case 0
  then show ?case by (simp add: code_indices_def)
next
  case (Suc n)
  have m: "\<And>x y. x \<le> y \<Longrightarrow> fl x \<le> fl y"
    using assms(1) by (simp add: keeps_order_def mono_def)
  have f: "fl (- 1) = - 1" "fl (- 1 / 2) = - 1 / 2"
    using assms(1) by (simp_all add: keeps_order_def)
  have "- 1 \<le> t - spc" "- 1 / 2 \<le> t + spc" "- 1 / 2 \<le> t + step"
    using Suc.prems assms(2-4) by linarith+
  then have "fl (- 1) \<le> fl (t - spc)" "fl (- 1 / 2) \<le> fl (t + spc)"
    "fl (- 1 / 2) \<le> fl (t + step)"
    using m by blast+
  then have b: "- 3 / 2 < fl (t - spc)" "- 3 / 2 < fl (t + spc)" "- 1 / 2 \<le> fl (t + step)"
    "- 3 / 2 < t"
    using f Suc.prems by linarith+
  show ?case
    using Suc.IH [OF b(3)] b(1,2,4) by (simp add: code_indices_def chip_index_in_ca_code)
qed






lemma tap_arguments_first_two:
  assumes "2 \<le> n"
  shows "tap_arguments fl spc step n t =
           (fl (t - spc), t, fl (t + spc))
             # (fl (fl (t + step) - spc), fl (t + step), fl (fl (t + step) + spc))
             # tap_arguments fl spc step (n - 2) (fl (fl (t + step) + step))"
proof -
  from assms obtain m where "n = Suc (Suc m)"
    by (metis Suc_diff_Suc Suc_le_lessD diff_zero less_imp_Suc_add numeral_2_eq_2 zero_less_Suc
        less_le_trans)
  then show ?thesis by simp
qed

subsection \<open>Replica periodicity\<close>




text \<open>A start further below zero reads outside the array, its shifted twin does not.\<close>

lemma replicas_out_of_bounds:
  "local_replicas (\<lambda>x. x) example_ca (1 / 2) 1 1 (- 5) = None
   \<and> local_replicas (\<lambda>x. x) example_ca (1 / 2) 1 1 (- 5 + 1023) \<noteq> None"
  by (simp add: local_replicas_def code_indices_def chip_index_def c_round_def c_fmod_def
      c_trunc_def in_ca_code_def)

subsection \<open>The stages of a call\<close>

lemma carrier_phase_loop_sum:
  "carrier_phase_loop n phase_step_rad phase_rad = phase_rad + real n * phase_step_rad"
  by (induction n arbitrary: phase_rad) (simp_all add: algebra_simps)

lemma correlate_Inr:
  assumes "correlate fl inp s = Inr s1"
  shows "\<exists>r a. s1 = s\<lparr>d_rem_carr_phase_rad := r, d_acc_carrier_phase_rad := a,
                       d_Early := corr_Early inp, d_Prompt := corr_Prompt inp,
                       d_Late := corr_Late inp\<rparr>"
  using assms
  by (auto simp: correlate_def update_local_carrier_def Let_def split: sum.splits if_splits)

lemma correlate_ok:
  assumes "keeps_order fl"
    and "fl (real_of_int (d_fs_in s)) \<noteq> 0" and "d_fs_in s \<noteq> 0"
    and "d_current_prn_length_samples s \<le> 2 * uint (d_vector_length s)"
    and "0 \<le> d_code_phase_step_chips s"
    and "0 \<le> d_early_late_spc_chips s" and "d_early_late_spc_chips s \<le> 1 / 2"
    and "- 1 / 2
           \<le> - fl (d_rem_code_phase_samples s
                   * fl (d_code_freq_hz s / fl (real_of_int (d_fs_in s))))"
  shows "correlate fl inp s =
           Inr (s\<lparr>d_rem_carr_phase_rad :=
                    c_fmod (d_rem_carr_phase_rad s
                            + real (nat (d_current_prn_length_samples s))
                              * (GPS_TWO_PI * d_carrier_doppler_hz s / real_of_int (d_fs_in s)))
                      GPS_TWO_PI,
                  d_acc_carrier_phase_rad :=
                    d_acc_carrier_phase_rad s
                    + c_fmod (d_rem_carr_phase_rad s
                              + real (nat (d_current_prn_length_samples s))
                                * (GPS_TWO_PI * d_carrier_doppler_hz s / real_of_int (d_fs_in s)))
                        GPS_TWO_PI,
                  d_Early := corr_Early inp, d_Prompt := corr_Prompt inp,
                  d_Late := corr_Late inp\<rparr>)"
proof -
  have "list_all indices_in_bounds
          (code_indices fl (d_early_late_spc_chips s) (d_code_phase_step_chips s)
             (nat (d_current_prn_length_samples s))
             (- fl (d_rem_code_phase_samples s
                    * fl (d_code_freq_hz s / fl (real_of_int (d_fs_in s))))))"
    using assms(1,5-8) by (intro code_indices_in_bounds)
  then show ?thesis
    using assms(2-4)
    by (simp add: correlate_def update_local_code_def update_local_carrier_def local_replicas_def
        Let_def carrier_phase_loop_sum)
qed

lemma c_round_error: "\<bar>x - real_of_int (c_round x)\<bar> \<le> 1 / 2"
proof (cases "0 \<le> x")
  case True
  then have "real_of_int (c_round x) = real_of_int \<lfloor>x + 1 / 2\<rfloor>" by (simp add: c_round_def)
  moreover have "real_of_int \<lfloor>x + 1 / 2\<rfloor> \<le> x + 1 / 2"
    "x + 1 / 2 < real_of_int \<lfloor>x + 1 / 2\<rfloor> + 1"
    by linarith+
  ultimately show ?thesis by linarith
next
  case False
  then have "real_of_int (c_round x) = - real_of_int \<lfloor>- x + 1 / 2\<rfloor>" by (simp add: c_round_def)
  moreover have "real_of_int \<lfloor>- x + 1 / 2\<rfloor> \<le> - x + 1 / 2"
    "- x + 1 / 2 < real_of_int \<lfloor>- x + 1 / 2\<rfloor> + 1"
    by linarith+
  ultimately show ?thesis by linarith
qed

lemma block_length_scheduler_Inr:
  assumes "block_length_scheduler fl inp s = Inr s2"
  shows "d_next_prn_length_samples s2 =
           c_round (K_blk_samples fl (d_code_freq_hz s2) (d_fs_in s)
                      (d_next_rem_code_phase_samples s))"
    and "d_next_rem_code_phase_samples s2 =
           fl (K_blk_samples fl (d_code_freq_hz s2) (d_fs_in s) (d_next_rem_code_phase_samples s)
               - fl (real_of_int (d_next_prn_length_samples s2)))"
    and "d_rem_code_phase_samples s2 = d_next_rem_code_phase_samples s"
    and "d_code_freq_hz s2 \<noteq> 0"
    and "d_fs_in s2 = d_fs_in s"
    and "d_enable_tracking s2 = d_enable_tracking s"
    and "d_pull_in s2 = d_pull_in s"
    and "d_current_prn_length_samples s2 = d_current_prn_length_samples s"
    and "d_channel_internal_queue s2 = d_channel_internal_queue s"
    and "d_carrier_lock_fail_counter s2 = d_carrier_lock_fail_counter s"
    and "d_carrier_lock_threshold s2 = d_carrier_lock_threshold s"
    and "d_cn0_estimation_counter s2 = d_cn0_estimation_counter s"
    and "d_sample_counter s2 = d_sample_counter s"
    and "d_sample_counter_seconds s2 = d_sample_counter_seconds s"
  using assms
  by (auto simp: block_length_scheduler_def Let_def split: if_splits)

lemma cn0_and_lock_detectors_Inr:
  assumes "cn0_and_lock_detectors inp s = Inr s3"
  shows "d_code_freq_hz s3 = d_code_freq_hz s"
    and "d_next_prn_length_samples s3 = d_next_prn_length_samples s"
    and "d_next_rem_code_phase_samples s3 = d_next_rem_code_phase_samples s"
    and "d_fs_in s3 = d_fs_in s"
    and "d_pull_in s3 = d_pull_in s"
    and "d_current_prn_length_samples s3 = d_current_prn_length_samples s"
    and "d_sample_counter s3 = d_sample_counter s"
    and "d_sample_counter_seconds s3 = d_sample_counter_seconds s"
  using assms
  by (auto simp: cn0_and_lock_detectors_def Let_def split: if_splits)

lemma cn0_and_lock_detectors_unlock:
  assumes "cn0_and_lock_detectors inp s = Inr s3"
    and "CN0_ESTIMATION_SAMPLES \<le> d_cn0_estimation_counter s"
    and "MAXIMUM_LOCK_FAIL_COUNTER
           < count_lock_fail (carrier_lock_fails (lock_detector inp) (d_carrier_lock_threshold s))
               (d_carrier_lock_fail_counter s)"
  shows "d_channel_internal_queue s3 = d_channel_internal_queue s @ [3]"
    and "\<not> d_enable_tracking s3"
  using assms
  by (auto simp: cn0_and_lock_detectors_def Let_def split: if_splits)

lemma consume_and_count_Inr:
  assumes "consume_and_count s out = Inr (s', w)"
  shows "d_fs_in s \<noteq> 0"
    and "s' = s\<lparr>d_sample_counter_seconds :=
                  d_sample_counter_seconds s
                    + real_of_int (d_current_prn_length_samples s) / real_of_int (d_fs_in s),
                d_sample_counter :=
                  d_sample_counter s + word_of_int (d_current_prn_length_samples s)\<rparr>"
    and "w = \<lparr>consumed = d_current_prn_length_samples s, produced = 1, out0 = out\<rparr>"
  using assms
  by (auto simp: consume_and_count_def split: if_splits)

lemma tracked_step_stages:
  assumes "d_enable_tracking s" and "\<not> d_pull_in s"
    and "\<not> isnan (fst (corr_Prompt inp))" and "\<not> isnan (snd (corr_Prompt inp))"
    and "general_work fl inp s = Inr (s', out)"
  obtains s1 s2 s3 where
    "correlate fl inp (s\<lparr>d_current_prn_length_samples := d_next_prn_length_samples s\<rparr>) = Inr s1"
    "block_length_scheduler fl inp s1 = Inr s2"
    "cn0_and_lock_detectors inp s2 = Inr s3"
    "consume_and_count s3 (tracking_record s3) = Inr (s', out)"
proof -
  from assms(1,2,5) obtain s1 where
    c: "correlate fl inp (s\<lparr>d_current_prn_length_samples := d_next_prn_length_samples s\<rparr>) = Inr s1"
    by (auto simp: general_work_def split: sum.splits)
  from correlate_Inr [OF c] have p: "d_Prompt s1 = corr_Prompt inp" by auto
  from assms c p have t: "tracked_block fl inp s1 = Inr (s', out)"
    by (simp add: general_work_def)
  then obtain s2 s3 where "block_length_scheduler fl inp s1 = Inr s2"
    "cn0_and_lock_detectors inp s2 = Inr s3"
    "consume_and_count s3 (tracking_record s3) = Inr (s', out)"
    by (auto simp: tracked_block_def split: sum.splits)
  with c that show thesis by blast
qed

lemma armed_step_current:
  assumes "d_enable_tracking s" and "\<not> d_pull_in s" and "general_work fl inp s = Inr (s', out)"
  shows "d_current_prn_length_samples s' = d_next_prn_length_samples s"
proof (cases "isnan (fst (corr_Prompt inp)) \<or> isnan (snd (corr_Prompt inp))")
  case True
  from assms obtain s1 where
    c: "correlate fl inp (s\<lparr>d_current_prn_length_samples := d_next_prn_length_samples s\<rparr>) = Inr s1"
    by (auto simp: general_work_def split: sum.splits)
  from correlate_Inr [OF c] obtain r a where
    s1: "s1 = s\<lparr>d_current_prn_length_samples := d_next_prn_length_samples s,
                d_rem_carr_phase_rad := r, d_acc_carrier_phase_rad := a,
                d_Early := corr_Early inp, d_Prompt := corr_Prompt inp,
                d_Late := corr_Late inp\<rparr>"
    by auto
  have "general_work fl inp s = Inr (nan_samples inp s1)"
    using assms(1,2) c True by (simp add: general_work_def s1)
  with assms(3) show ?thesis by (auto simp: nan_samples_def s1 Let_def)
next
  case False
  then have n: "\<not> isnan (fst (corr_Prompt inp))" "\<not> isnan (snd (corr_Prompt inp))" by simp_all
  from tracked_step_stages [OF assms(1,2) n assms(3)] obtain s1 s2 s3 where
    c: "correlate fl inp (s\<lparr>d_current_prn_length_samples := d_next_prn_length_samples s\<rparr>) = Inr s1"
    and b: "block_length_scheduler fl inp s1 = Inr s2"
    and l: "cn0_and_lock_detectors inp s2 = Inr s3"
    and e: "consume_and_count s3 (tracking_record s3) = Inr (s', out)"
    by blast
  from correlate_Inr [OF c] have "d_current_prn_length_samples s1 = d_next_prn_length_samples s"
    by auto
  then show ?thesis
    using block_length_scheduler_Inr(8) [OF b] cn0_and_lock_detectors_Inr(6) [OF l]
      consume_and_count_Inr(2) [OF e] by simp
qed

lemma general_work_disabled:
  assumes "\<not> d_enable_tracking s" and "d_fs_in s \<noteq> 0"
  shows "general_work fl inp s =
           Inr (s\<lparr>d_Early := gr_zero, d_Prompt := gr_zero, d_Late := gr_zero,
                  d_sample_counter_seconds :=
                    d_sample_counter_seconds s
                      + real_of_int (d_current_prn_length_samples s) / real_of_int (d_fs_in s),
                  d_sample_counter :=
                    d_sample_counter s + word_of_int (d_current_prn_length_samples s)\<rparr>,
                \<lparr>consumed = d_current_prn_length_samples s, produced = 1,
                 out0 = default_synchro\<rparr>)"
  using assms by (simp add: general_work_def consume_and_count_def)

lemma disabled_steps:
  assumes "\<not> d_enable_tracking s" and "d_fs_in s \<noteq> 0"
  shows "\<exists>s' outs. stream_steps fl inps s = Inr (s', outs) \<and> length outs = length inps
           \<and> \<not> d_enable_tracking s' \<and> d_channel_internal_queue s' = d_channel_internal_queue s"
  using assms
proof (induction inps arbitrary: s)
  case Nil
  then show ?case by simp
next
  case (Cons inp inps)
  let ?s1 = "s\<lparr>d_Early := gr_zero, d_Prompt := gr_zero, d_Late := gr_zero,
                  d_sample_counter_seconds :=
                    d_sample_counter_seconds s
                      + real_of_int (d_current_prn_length_samples s) / real_of_int (d_fs_in s),
                  d_sample_counter :=
                    d_sample_counter s + word_of_int (d_current_prn_length_samples s)\<rparr>"
  have "\<not> d_enable_tracking ?s1" "d_fs_in ?s1 \<noteq> 0" using Cons.prems by simp_all
  from Cons.IH [OF this] obtain s' outs where
    "stream_steps fl inps ?s1 = Inr (s', outs)" "length outs = length inps"
    "\<not> d_enable_tracking s'" "d_channel_internal_queue s' = d_channel_internal_queue ?s1"
    by blast
  then show ?case
    using general_work_disabled [OF Cons.prems, of fl inp] by simp
qed

text \<open>What the pull-in call does.\<close>

lemma pull_in_step:
  assumes "d_enable_tracking s" and "d_pull_in s" and "general_work fl inp s = Inr (s', out)"
  shows "consumed out =
           c_round (d_acq_code_phase_samples s
                    + (real_of_int (d_next_prn_length_samples s)
                       - c_fmod (real_of_int (sint (ucast (d_sample_counter s - d_acq_sample_stamp s) :: 32 word)))
                           (real_of_int (d_next_prn_length_samples s))))"
    and "d_sample_counter s' = d_sample_counter s + word_of_int (consumed out)"
    and "d_sample_counter_seconds s' =
           d_sample_counter_seconds s + real_of_int (consumed out) / real_of_int (d_fs_in s)"
    and "\<not> d_pull_in s'" and "d_enable_tracking s'"
    and "produced out = 1" and "out0 out = out_slot inp"
  using assms
  by (auto simp: general_work_def pull_in_alignment_def Let_def split: if_splits)

text \<open>What \<^verbatim>\<open>start_tracking\<close> sets the two frequencies to; in exact arithmetic the code
  frequency is \<open>(1 + Acq_doppler_hz / GPS_L1_FREQ_HZ) * GPS_L1_CA_CODE_RATE_HZ\<close>.\<close>

lemma start_tracking_frequencies:
  assumes "start_tracking fl code_gen_conplex s = Inr s'"
  shows "d_carrier_doppler_hz s' = Acq_doppler_hz (d_acquisition_gnss_synchro s)"
    and "d_code_freq_hz s' =
           fl (fl ((GPS_L1_FREQ_HZ + Acq_doppler_hz (d_acquisition_gnss_synchro s)) / GPS_L1_FREQ_HZ)
               * GPS_L1_CA_CODE_RATE_HZ)"
  using assms
  by (auto simp: start_tracking_def Let_def split: if_splits)

lemma start_tracking_frequencies_exact:
  assumes "start_tracking (\<lambda>x. x) code_gen_conplex s = Inr s'"
  shows "d_code_freq_hz s' =
           (1 + Acq_doppler_hz (d_acquisition_gnss_synchro s) / GPS_L1_FREQ_HZ)
             * GPS_L1_CA_CODE_RATE_HZ"
  using start_tracking_frequencies(2) [OF assms]
  by (simp add: GPS_L1_FREQ_HZ_def add_divide_distrib)

text \<open>The rule of the block length holds after \<^verbatim>\<open>start_tracking\<close> and is kept by every
  call.\<close>

lemma exact_remainder_bounds:
  assumes "exact_remainder fl"
  shows "- 1 / 2 \<le> fl (fl x - fl (real_of_int (c_round (fl x))))"
    and "fl (fl x - fl (real_of_int (c_round (fl x)))) \<le> 1 / 2"
proof -
  have "fl (fl x - fl (real_of_int (c_round (fl x)))) = fl x - real_of_int (c_round (fl x))"
    using assms unfolding exact_remainder_def by blast
  then show "- 1 / 2 \<le> fl (fl x - fl (real_of_int (c_round (fl x))))"
    and "fl (fl x - fl (real_of_int (c_round (fl x)))) \<le> 1 / 2"
    using c_round_error [of "fl x"] by linarith+
qed

lemma start_tracking_length_rule:
  assumes "fixes_floats fl" and "start_tracking fl code_gen_conplex s = Inr s'"
  shows "length_rule fl s'"
proof -
  define cf where
    "cf = fl (fl ((GPS_L1_FREQ_HZ + Acq_doppler_hz (d_acquisition_gnss_synchro s)) / GPS_L1_FREQ_HZ)
              * GPS_L1_CA_CODE_RATE_HZ)"
  define T where "T = T_prn_samples fl cf (d_fs_in s)"
  from assms(2) have
    "d_code_freq_hz s' = cf \<and> d_fs_in s' = d_fs_in s
     \<and> d_next_prn_length_samples s' = c_round T
     \<and> d_rem_code_phase_samples s' = 0 \<and> d_next_rem_code_phase_samples s' = 0"
    unfolding start_tracking_def Let_def T_def T_prn_samples_def cf_def [symmetric]
    by (auto split: if_splits)
  moreover have "fl T = T"
    using assms(1) unfolding T_def T_prn_samples_def Let_def fixes_floats_def by blast
  ultimately show ?thesis
    by (simp add: length_rule_def K_blk_samples_def T_def)
qed

lemma block_length_scheduler_length_rule:
  assumes "exact_remainder fl" and "block_length_scheduler fl inp s = Inr s2"
  shows "length_rule fl s2" and "d_rem_code_phase_samples s2 = d_next_rem_code_phase_samples s"
proof -
  note f = block_length_scheduler_Inr [OF assms(2)]
  let ?K = "K_blk_samples fl (d_code_freq_hz s2) (d_fs_in s) (d_next_rem_code_phase_samples s)"
  show r: "d_rem_code_phase_samples s2 = d_next_rem_code_phase_samples s" using f by simp
  have l: "d_next_prn_length_samples s2 = c_round ?K" using f by simp
  have "d_next_rem_code_phase_samples s2 = fl (?K - fl (real_of_int (c_round ?K)))"
    using f l by simp
  then have "- 1 / 2 \<le> d_next_rem_code_phase_samples s2 \<and> d_next_rem_code_phase_samples s2 \<le> 1 / 2"
    using exact_remainder_bounds [OF assms(1)] unfolding K_blk_samples_def by simp
  moreover have "d_fs_in s2 = d_fs_in s" using f by simp
  ultimately show "length_rule fl s2"
    using l r by (simp add: length_rule_def)
qed

lemma length_rule_cong:
  assumes "length_rule fl s"
    and "d_next_prn_length_samples s' = d_next_prn_length_samples s"
    and "d_code_freq_hz s' = d_code_freq_hz s"
    and "d_fs_in s' = d_fs_in s"
    and "d_rem_code_phase_samples s' = d_rem_code_phase_samples s"
    and "d_next_rem_code_phase_samples s' = d_next_rem_code_phase_samples s"
  shows "length_rule fl s'"
  using assms by (simp add: length_rule_def)

lemma cn0_and_lock_detectors_rem:
  assumes "cn0_and_lock_detectors inp s = Inr s3"
  shows "d_rem_code_phase_samples s3 = d_rem_code_phase_samples s"
  using assms
  by (auto simp: cn0_and_lock_detectors_def Let_def split: if_splits)

lemma general_work_length_rule:
  assumes "exact_remainder fl" and "length_rule fl s" and "general_work fl inp s = Inr (s', out)"
  shows "length_rule fl s'"
proof (cases "d_enable_tracking s")
  case False
  with assms(3) have "d_fs_in s \<noteq> 0"
    by (auto simp: general_work_def consume_and_count_def split: if_splits)
  from general_work_disabled [OF False this, of fl inp] assms(2,3) show ?thesis
    by (auto simp: length_rule_def)
next
  case en: True
  show ?thesis
  proof (cases "d_pull_in s")
    case True
    with en assms(2,3) show ?thesis
      by (auto simp: general_work_def pull_in_alignment_def Let_def length_rule_def
          split: if_splits)
  next
    case pl: False
    show ?thesis
    proof (cases "isnan (fst (corr_Prompt inp)) \<or> isnan (snd (corr_Prompt inp))")
      case True
      from en pl assms(3) obtain s1 where
        c: "correlate fl inp (s\<lparr>d_current_prn_length_samples := d_next_prn_length_samples s\<rparr>) = Inr s1"
        by (auto simp: general_work_def split: sum.splits)
      from correlate_Inr [OF c] obtain r a where
        s1: "s1 = s\<lparr>d_current_prn_length_samples := d_next_prn_length_samples s,
                    d_rem_carr_phase_rad := r, d_acc_carrier_phase_rad := a,
                    d_Early := corr_Early inp, d_Prompt := corr_Prompt inp,
                    d_Late := corr_Late inp\<rparr>"
        by auto
      have "general_work fl inp s = Inr (nan_samples inp s1)"
        using en pl c True by (simp add: general_work_def s1)
      with assms(2,3) show ?thesis
        by (auto simp: nan_samples_def s1 Let_def length_rule_def)
    next
      case False
      then have n: "\<not> isnan (fst (corr_Prompt inp))" "\<not> isnan (snd (corr_Prompt inp))"
        by simp_all
      from tracked_step_stages [OF en pl n assms(3)] obtain s1 s2 s3 where
        b: "block_length_scheduler fl inp s1 = Inr s2"
        and l: "cn0_and_lock_detectors inp s2 = Inr s3"
        and e: "consume_and_count s3 (tracking_record s3) = Inr (s', out)"
        by blast
      have "length_rule fl s2" using block_length_scheduler_length_rule(1) [OF assms(1) b] .
      then have "length_rule fl s3"
        using cn0_and_lock_detectors_Inr [OF l] cn0_and_lock_detectors_rem [OF l]
        by (intro length_rule_cong [of fl s2 s3]) simp_all
      then show ?thesis
        using consume_and_count_Inr(2) [OF e] by (simp add: length_rule_def)
    qed
  qed
qed

lemma stream_steps_length_rule:
  assumes "exact_remainder fl" and "length_rule fl s" and "stream_steps fl inps s = Inr (s', outs)"
  shows "length_rule fl s'"
  using assms(2,3)
proof (induction inps arbitrary: s outs)
  case Nil
  then show ?case by simp
next
  case (Cons inp inps)
  from Cons.prems(2) obtain s1 out outs1 where
    1: "general_work fl inp s = Inr (s1, out)" and 2: "stream_steps fl inps s1 = Inr (s', outs1)"
    by (auto split: sum.splits)
  from general_work_length_rule [OF assms(1) Cons.prems(1) 1] have "length_rule fl s1" .
  from Cons.IH [OF this 2] show ?case .
qed

lemma tracked_step_rem:
  assumes "d_enable_tracking s" and "\<not> d_pull_in s"
    and "\<not> isnan (fst (corr_Prompt inp))" and "\<not> isnan (snd (corr_Prompt inp))"
    and "general_work fl inp s = Inr (s', out)"
  shows "d_rem_code_phase_samples s' = d_next_rem_code_phase_samples s"
proof -
  from tracked_step_stages [OF assms] obtain s1 s2 s3 where
    c: "correlate fl inp (s\<lparr>d_current_prn_length_samples := d_next_prn_length_samples s\<rparr>) = Inr s1"
    and b: "block_length_scheduler fl inp s1 = Inr s2"
    and l: "cn0_and_lock_detectors inp s2 = Inr s3"
    and e: "consume_and_count s3 (tracking_record s3) = Inr (s', out)"
    by blast
  from correlate_Inr [OF c] have "d_next_rem_code_phase_samples s1 = d_next_rem_code_phase_samples s"
    by auto
  then show ?thesis
    using block_length_scheduler_Inr(3) [OF b] cn0_and_lock_detectors_rem [OF l]
      consume_and_count_Inr(2) [OF e] by simp
qed

text \<open>Exact arithmetic fixes every number.\<close>

lemma fixes_floats_exact: "fixes_floats (\<lambda>x. x)"
  by (simp add: fixes_floats_def)

subsection \<open>The concrete blocks\<close>

lemmas ex_defs = new_block_def armed_block_def aligned_block_def tracked_tie_def
  tracked_tie_out_def lock_test_block_def failing_block_def late_block_def
  unset_step_new_def unset_step_armed_def unset_step_aligned_def
  Gps_L1_Ca_Dll_Pll_Tracking_cc_def raw_object_def acquired1_def acquired_m5000_def
  default_synchro_def stale_record_def idle_in_def tie_in_def nan_in_def weak_in_def strong_in_def
  GPS_L1_CA_CODE_RATE_HZ_def GPS_L1_CA_CODE_LENGTH_CHIPS_def GPS_L1_FREQ_HZ_def

lemmas work_defs = general_work_def correlate_ok keeps_order_exact tracked_block_def
  block_length_scheduler_def T_prn_samples_def K_blk_samples_def
  cn0_and_lock_detectors_def consume_and_count_def tracking_record_def nan_samples_def
  pull_in_alignment_def carrier_lock_fails_def count_lock_fail_def
  CN0_ESTIMATION_SAMPLES_def MINIMUM_VALID_CN0_def MAXIMUM_LOCK_FAIL_COUNTER_def
  Let_def c_round_def c_fmod_def c_trunc_def in_int_range_def

text \<open>The armed block is what \<^verbatim>\<open>start_tracking\<close> makes of the new block, and the pull-in
  call takes it to the aligned block. One tracked call with a code NCO command of
  -25576 Hz takes the aligned block to \<open>tracked_tie\<close>: the code frequency is then
  \<open>2 ^ 20\<close> Hz, twice the sampling frequency, and every number stored is a float.\<close>

lemma armed_block_reached:
  "start_tracking (\<lambda>x. x) (\<lambda>prn. example_chips) (set_gnss_synchro acquired1 new_block)
     = Inr armed_block"
  by (simp add: start_tracking_def set_gnss_synchro_def ex_defs Let_def example_ca_def
      c_round_def c_fmod_def c_trunc_def in_int_range_def)

lemma aligned_block_reached:
  "general_work fl idle_in armed_block =
     Inr (aligned_block, \<lparr>consumed = 524, produced = 1, out0 = stale_record\<rparr>)"
  by (simp add: work_defs ex_defs)

lemma tracked_tie_reached:
  "general_work (\<lambda>x. x) tie_in aligned_block = Inr (tracked_tie, tracked_tie_out)"
  by (simp add: work_defs ex_defs)

lemma correlate_aligned_block:
  "correlate (\<lambda>x. x) inp
     (aligned_block\<lparr>d_current_prn_length_samples := d_next_prn_length_samples aligned_block\<rparr>)
     = Inr (aligned_block\<lparr>d_Early := corr_Early inp, d_Prompt := corr_Prompt inp,
                           d_Late := corr_Late inp\<rparr>)"
  by (subst correlate_ok) (simp_all add: keeps_order_exact ex_defs c_fmod_def c_trunc_def)

subsection \<open>The chip indices and the stored code phase step\<close>

text \<open>With a step that is not negative, as line 454 stores it from a positive code
  frequency, the indices stay in the array under the bounds on the residual, the spacing
  and the code frequency, for every monotone rounding that keeps -1, -1/2, 0, 1/2 and 1
  and for a stored code frequency that is a float.\<close>

lemma update_local_code_in_bounds:
  assumes "keeps_order fl" and "fl (d_code_freq_hz s) = d_code_freq_hz s"
    and "\<bar>d_rem_code_phase_samples s\<bar> \<le> 1 / 2"
    and "0 < d_early_late_spc_chips s" and "d_early_late_spc_chips s \<le> 1 / 2"
    and "0 < d_code_freq_hz s" and "d_code_freq_hz s \<le> real_of_int (d_fs_in s)"
    and "0 \<le> d_code_phase_step_chips s"
  shows "list_all indices_in_bounds
           (code_indices fl (d_early_late_spc_chips s) (d_code_phase_step_chips s)
              (nat (d_current_prn_length_samples s))
              (- fl (d_rem_code_phase_samples s
                     * fl (d_code_freq_hz s / fl (real_of_int (d_fs_in s))))))
         \<and> update_local_code fl s \<noteq> Inl Ca_code_out_of_bounds"
proof -
  have m: "\<And>x y. x \<le> y \<Longrightarrow> fl x \<le> fl y"
    using assms(1) by (simp add: keeps_order_def mono_def)
  have f: "fl (- 1 / 2) = - 1 / 2" "fl 0 = 0" "fl (1 / 2) = 1 / 2" "fl 1 = 1"
    using assms(1) by (simp_all add: keeps_order_def)
  let ?fs = "fl (real_of_int (d_fs_in s))"
  let ?q = "d_code_freq_hz s / ?fs"
  let ?r = "fl ?q"
  have "fl (d_code_freq_hz s) \<le> ?fs" using m [OF assms(7)] .
  then have fs: "d_code_freq_hz s \<le> ?fs" using assms(2) by simp
  then have fs0: "0 < ?fs" using assms(6) by linarith
  have "0 \<le> ?q" using assms(6) fs0 by simp
  moreover have "?q \<le> 1" using fs fs0 by simp
  ultimately have "fl 0 \<le> ?r" "?r \<le> fl 1" using m by blast+
  then have r: "0 \<le> ?r" "?r \<le> 1" using f by simp_all
  have ar: "\<bar>?r\<bar> = ?r" using r(1) by (rule abs_of_nonneg)
  have "\<bar>d_rem_code_phase_samples s * ?r\<bar> = \<bar>d_rem_code_phase_samples s\<bar> * ?r"
    unfolding abs_mult ar ..
  also have "\<dots> \<le> \<bar>d_rem_code_phase_samples s\<bar> * 1"
    using r(2) by (intro mult_left_mono) simp_all
  finally have "\<bar>d_rem_code_phase_samples s * ?r\<bar> \<le> \<bar>d_rem_code_phase_samples s\<bar> * 1" .
  then have "- 1 / 2 \<le> d_rem_code_phase_samples s * ?r" "d_rem_code_phase_samples s * ?r \<le> 1 / 2"
    using assms(3) by linarith+
  then have "fl (- 1 / 2) \<le> fl (d_rem_code_phase_samples s * ?r)"
    "fl (d_rem_code_phase_samples s * ?r) \<le> fl (1 / 2)"
    using m by blast+
  then have "- 1 / 2 \<le> - fl (d_rem_code_phase_samples s * ?r)" using f by linarith
  then have b: "list_all indices_in_bounds
           (code_indices fl (d_early_late_spc_chips s) (d_code_phase_step_chips s)
              (nat (d_current_prn_length_samples s)) (- fl (d_rem_code_phase_samples s * ?r)))"
    using assms(1,4,5,8) by (intro code_indices_in_bounds) simp_all
  then show ?thesis
    by (simp add: update_local_code_def local_replicas_def Let_def)
qed

text \<open>So they do with the step that line 454 stores at the end of a tracked block, the
  rounded quotient of the code frequency by the sampling frequency.\<close>

lemma update_local_code_in_bounds_scheduled:
  assumes "keeps_order fl" and "fl (d_code_freq_hz s) = d_code_freq_hz s"
    and "\<bar>d_rem_code_phase_samples s\<bar> \<le> 1 / 2"
    and "0 < d_early_late_spc_chips s" and "d_early_late_spc_chips s \<le> 1 / 2"
    and "0 < d_code_freq_hz s" and "d_code_freq_hz s \<le> real_of_int (d_fs_in s)"
    and "d_code_phase_step_chips s = fl (d_code_freq_hz s / fl (real_of_int (d_fs_in s)))"
  shows "list_all indices_in_bounds
           (code_indices fl (d_early_late_spc_chips s) (d_code_phase_step_chips s)
              (nat (d_current_prn_length_samples s))
              (- fl (d_rem_code_phase_samples s
                     * fl (d_code_freq_hz s / fl (real_of_int (d_fs_in s))))))
         \<and> update_local_code fl s \<noteq> Inl Ca_code_out_of_bounds"
proof -
  have m: "\<And>x y. x \<le> y \<Longrightarrow> fl x \<le> fl y"
    using assms(1) by (simp add: keeps_order_def mono_def)
  have z: "fl 0 = 0" using assms(1) by (simp add: keeps_order_def)
  have "fl (d_code_freq_hz s) \<le> fl (real_of_int (d_fs_in s))" using m [OF assms(7)] .
  then have "0 < fl (real_of_int (d_fs_in s))" using assms(2,6) by linarith
  then have "0 \<le> d_code_freq_hz s / fl (real_of_int (d_fs_in s))" using assms(6) by simp
  then have "fl 0 \<le> fl (d_code_freq_hz s / fl (real_of_int (d_fs_in s)))" by (rule m)
  then have "0 \<le> d_code_phase_step_chips s" using z assms(8) by simp
  then show ?thesis using assms(1-7) by (rule update_local_code_in_bounds [rotated -1])
qed

text \<open>
  C10. The specification states that under the bounds on the residual, the spacing and
  the code frequency every chip index lies in the 1025 cells of \<open>d_ca_code\<close>. The step
  that advances \<open>tcode_chips\<close> (line 299) is the member \<open>d_code_phase_step_chips\<close>, which
  line 454 assigns at the end of a tracked block and which neither the constructor nor
  \<^verbatim>\<open>start_tracking\<close> assigns: the first block after arming resamples with whatever the
  allocation held. On a block at two samples per chip whose allocation held -2 there, armed
  by \<^verbatim>\<open>start_tracking\<close> and aligned by the pull-in call, the bounds of the specification
  hold, the early tap of the second sample is -2.5 and its index is -2: the first tracked
  call reads before the array. The numbers that the run stores are the same in exact
  arithmetic and in single precision.
\<close>

theorem first_block_reads_out_of_bounds:
  "start_tracking (\<lambda>x. x) (\<lambda>prn. example_chips) (set_gnss_synchro acquired1 unset_step_new)
     = Inr unset_step_armed
   \<and> general_work (\<lambda>x. x) idle_in unset_step_armed
       = Inr (unset_step_aligned, \<lparr>consumed = 2046, produced = 1, out0 = stale_record\<rparr>)
   \<and> \<bar>d_rem_code_phase_samples unset_step_aligned\<bar> \<le> 1 / 2
   \<and> 0 < d_early_late_spc_chips unset_step_aligned
   \<and> d_early_late_spc_chips unset_step_aligned \<le> 1 / 2
   \<and> 0 < d_code_freq_hz unset_step_aligned
   \<and> d_code_freq_hz unset_step_aligned \<le> real_of_int (d_fs_in unset_step_aligned)
   \<and> d_code_phase_step_chips unset_step_aligned = - 2
   \<and> take 2 (code_indices (\<lambda>x. x) (1 / 2) (- 2) 2046 0) = [(0, 1, 2), (- 2, - 1, - 1)]
   \<and> general_work (\<lambda>x. x) idle_in unset_step_aligned = Inl Ca_code_out_of_bounds"
proof -
  have a: "start_tracking (\<lambda>x. x) (\<lambda>prn. example_chips) (set_gnss_synchro acquired1 unset_step_new)
             = Inr unset_step_armed"
    by (simp add: start_tracking_def set_gnss_synchro_def ex_defs Let_def example_ca_def
        c_round_def c_fmod_def c_trunc_def in_int_range_def)
  have p: "general_work (\<lambda>x. x) idle_in unset_step_armed
             = Inr (unset_step_aligned, \<lparr>consumed = 2046, produced = 1, out0 = stale_record\<rparr>)"
    by (simp add: work_defs ex_defs)
  have t: "tap_arguments (\<lambda>x. x) (1 / 2) (- 2) 2046 0 =
             (- 1 / 2, 0, 1 / 2) # (- 5 / 2, - 2, - 3 / 2)
               # tap_arguments (\<lambda>x. x) (1 / 2) (- 2) 2044 (- 4)"
    by (subst tap_arguments_first_two) simp_all
  have i: "take 2 (code_indices (\<lambda>x. x) (1 / 2) (- 2) 2046 0) = [(0, 1, 2), (- 2, - 1, - 1)]"
    by (simp add: code_indices_def t chip_index_def c_round_def c_fmod_def c_trunc_def)
  have n: "\<not> list_all indices_in_bounds (code_indices (\<lambda>x. x) (1 / 2) (- 2) 2046 0)"
    by (simp add: code_indices_def t chip_index_def c_round_def c_fmod_def c_trunc_def
        in_ca_code_def)
  have u: "update_local_code (\<lambda>x. x)
             (unset_step_aligned\<lparr>d_current_prn_length_samples :=
                                   d_next_prn_length_samples unset_step_aligned\<rparr>)
             = Inl Ca_code_out_of_bounds"
    using n by (simp add: update_local_code_def local_replicas_def ex_defs)
  have g: "general_work (\<lambda>x. x) idle_in unset_step_aligned = Inl Ca_code_out_of_bounds"
    using u by (simp add: general_work_def correlate_def ex_defs)
  have b: "\<bar>d_rem_code_phase_samples unset_step_aligned\<bar> \<le> 1 / 2"
    "0 < d_early_late_spc_chips unset_step_aligned"
    "d_early_late_spc_chips unset_step_aligned \<le> 1 / 2"
    "0 < d_code_freq_hz unset_step_aligned"
    "d_code_freq_hz unset_step_aligned \<le> real_of_int (d_fs_in unset_step_aligned)"
    "d_code_phase_step_chips unset_step_aligned = - 2"
    by (simp_all add: ex_defs)
  show ?thesis using a p b i g by blast
qed

subsection \<open>The carrier lock failure counter\<close>

text \<open>
  C1. The specification states that, when the detector is evaluated, the failure counter
  is incremented exactly when the lock test is below the threshold or the C/N0 estimate is
  below 25 dB-Hz, and is otherwise decremented down to 0. The code (line 500) compares the
  lock test, not the C/N0 estimate, with \<^verbatim>\<open>MINIMUM_VALID_CN0\<close>, and with \<^verbatim>\<open>>\<close>. On the
  block whose buffer is full, with threshold 5 and 7 failures counted: a lock test of 10
  with a C/N0 of 10 dB-Hz decrements the counter to 6, and a lock test of 30 with a C/N0
  of 40 dB-Hz increments it to 8.
\<close>

theorem lock_counter_ignores_cn0:
  "d_carrier_lock_threshold lock_test_block = Fin 5
   \<and> d_carrier_lock_fail_counter lock_test_block = 7
   \<and> map_sum id (d_CN0_SNV_dB_Hz \<circ> fst) (general_work (\<lambda>x. x) weak_in lock_test_block)
       = Inr (Fin 10)
   \<and> map_sum id (d_carrier_lock_test \<circ> fst) (general_work (\<lambda>x. x) weak_in lock_test_block)
       = Inr (Fin 10)
   \<and> map_sum id (d_carrier_lock_fail_counter \<circ> fst)
       (general_work (\<lambda>x. x) weak_in lock_test_block) = Inr 6
   \<and> map_sum id (d_CN0_SNV_dB_Hz \<circ> fst) (general_work (\<lambda>x. x) strong_in lock_test_block)
       = Inr (Fin 40)
   \<and> map_sum id (d_carrier_lock_test \<circ> fst) (general_work (\<lambda>x. x) strong_in lock_test_block)
       = Inr (Fin 30)
   \<and> map_sum id (d_carrier_lock_fail_counter \<circ> fst)
       (general_work (\<lambda>x. x) strong_in lock_test_block) = Inr 8"
  by (simp add: work_defs ex_defs)

subsection \<open>Calls while tracking is disabled\<close>

text \<open>
  C2, as amended. A call made while \<open>d_enable_tracking\<close> is false (the sampling frequency
  not being zero) returns one output item, a zeroed record, consumes
  \<open>d_current_prn_length_samples\<close> input samples, advances \<open>d_sample_counter\<close> by that
  number and \<open>d_sample_counter_seconds\<close> by that number over the sampling frequency, and
  leaves tracking disabled.
\<close>

theorem unarmed_step:
  assumes "\<not> d_enable_tracking s" and "d_fs_in s \<noteq> 0"
  shows "\<exists>s' out. general_work fl inp s = Inr (s', out)
           \<and> produced out = 1
           \<and> out0 out = default_synchro
           \<and> Prompt_I (out0 out) = Fin 0 \<and> Prompt_Q (out0 out) = Fin 0
           \<and> Tracking_timestamp_secs (out0 out) = 0
           \<and> Carrier_phase_rads (out0 out) = 0 \<and> Code_phase_secs (out0 out) = 0
           \<and> CN0_dB_hz (out0 out) = Fin 0 \<and> Flag_valid_tracking (out0 out) = False
           \<and> consumed out = d_current_prn_length_samples s
           \<and> d_sample_counter s' = d_sample_counter s + word_of_int (d_current_prn_length_samples s)
           \<and> d_sample_counter_seconds s' =
               d_sample_counter_seconds s
                 + real_of_int (d_current_prn_length_samples s) / real_of_int (d_fs_in s)
           \<and> \<not> d_enable_tracking s'"
  using assms by (simp add: general_work_disabled default_synchro_def)

theorem unarmed_step_witness:
  "\<not> d_enable_tracking new_block \<and> d_fs_in new_block \<noteq> 0
   \<and> (\<exists>s' out. general_work (\<lambda>x. x) idle_in new_block = Inr (s', out)
         \<and> produced out = 1
         \<and> out0 out = default_synchro
         \<and> Prompt_I (out0 out) = Fin 0 \<and> Prompt_Q (out0 out) = Fin 0
         \<and> Tracking_timestamp_secs (out0 out) = 0
         \<and> Carrier_phase_rads (out0 out) = 0 \<and> Code_phase_secs (out0 out) = 0
         \<and> CN0_dB_hz (out0 out) = Fin 0 \<and> Flag_valid_tracking (out0 out) = False
         \<and> consumed out = d_current_prn_length_samples new_block
         \<and> d_sample_counter s' =
             d_sample_counter new_block + word_of_int (d_current_prn_length_samples new_block)
         \<and> d_sample_counter_seconds s' =
             d_sample_counter_seconds new_block
               + real_of_int (d_current_prn_length_samples new_block) / real_of_int (d_fs_in new_block)
         \<and> \<not> d_enable_tracking s')"
proof -
  have h: "\<not> d_enable_tracking new_block" "d_fs_in new_block \<noteq> 0"
    by (simp_all add: ex_defs)
  show ?thesis using h unarmed_step [OF h, of "\<lambda>x. x" idle_in] by blast
qed

text \<open>
  C2 as stated fails: the unarmed call falls through to the end of \<^verbatim>\<open>general_work\<close>
  (lines 624 to 627). The block just constructed with a vector length of 524 emits the
  zeroed record, consumes 524 samples and counts them.
\<close>

theorem unarmed_step_consumes:
  "\<not> d_enable_tracking new_block
   \<and> d_sample_counter new_block = 0
   \<and> d_sample_counter_seconds new_block = 0
   \<and> general_work (\<lambda>x. x) idle_in new_block =
       Inr (new_block\<lparr>d_sample_counter_seconds := 524 / 524288, d_sample_counter := 524\<rparr>,
            \<lparr>consumed = 524, produced = 1, out0 = default_synchro\<rparr>)"
  by (simp add: general_work_def consume_and_count_def ex_defs gr_zero_def)

subsection \<open>The pull-in call\<close>

text \<open>
  C3. The specification states that the first armed call consumes \<open>samples_offset\<close>
  samples, counts them, clears \<open>d_pull_in\<close> and emits a placeholder record copied from
  the acquisition record. The code returns 1 at line 386 without assigning the output
  item, which the three other paths all assign: on the armed block the call consumes 524
  samples, counts them and clears \<open>d_pull_in\<close>, and the output item still holds the
  record of satellite 7 that was there, not a copy of the acquisition record of
  satellite 1.
\<close>

theorem pull_in_leaves_output_item:
  "d_enable_tracking armed_block \<and> d_pull_in armed_block
   \<and> out_slot idle_in = stale_record
   \<and> general_work (\<lambda>x. x) idle_in armed_block =
       Inr (aligned_block, \<lparr>consumed = 524, produced = 1, out0 = stale_record\<rparr>)
   \<and> PRN stale_record = 7
   \<and> PRN (d_acquisition_gnss_synchro armed_block) = 1"
  by (simp add: work_defs ex_defs)

subsection \<open>The corrected acquisition code phase\<close>

text \<open>
  C4. The specification states that after \<^verbatim>\<open>start_tracking\<close> the carrier Doppler and the
  code frequency are those of the acquisition, and the corrected code phase is at least 0
  and below \<open>T_prn_true_samples\<close>. The code reduces the phase with \<^verbatim>\<open>fmod\<close> by
  \<open>T_prn_true_samples\<close> and wraps a negative result by adding \<open>T_prn_mod_samples\<close>
  (line 228), where \<^verbatim>\<open>general_work\<close> wraps the code phase by \<open>T_prn_true_samples\<close>
  (lines 470 to 475). At 4.092 MHz (4092 samples per true period), a Doppler of -5 kHz
  and 1000 samples between acquisition and arming, the corrected phase is, in exact
  arithmetic, 4092 + 3092/315083 samples, above the true period.
\<close>

theorem corrected_phase_exceeds_period:
  "d_fs_in late_block = 4092000
   \<and> d_sample_counter late_block - Acq_samplestamp_samples (d_acquisition_gnss_synchro late_block) = 1000
   \<and> GPS_L1_CA_CODE_LENGTH_CHIPS / GPS_L1_CA_CODE_RATE_HZ * real_of_int (d_fs_in late_block) = 4092
   \<and> map_sum id d_acq_code_phase_samples (start_tracking (\<lambda>x. x) (\<lambda>prn. example_chips) late_block)
       = Inr (4092 + 3092 / 315083)"
  by (simp add: start_tracking_def ex_defs Let_def c_round_def c_fmod_def c_trunc_def
      in_int_range_def)

subsection \<open>The block length\<close>

text \<open>
  C5, as amended. In a run that \<^verbatim>\<open>start_tracking\<close> began, every armed post-pull-in call
  correlates over \<open>d_current_prn_length_samples = round(K_blk_samples)\<close> samples, where
  \<open>K_blk_samples\<close> is the float \<open>((1 / code_freq_hz) * 1023) * fs + r\<close> computed as lines
  460 to 464 do, every operation rounded to a float, from the stored code frequency and
  the stored \<open>d_rem_code_phase_samples\<close> \<open>r\<close> when the call starts; \<open>r\<close> is the
  \<open>d_next_rem_code_phase_samples\<close> that the last tracked call started from (a call whose
  Prompt output is NaN keeps it), and 0 before the first tracked call. After the call
  \<open>d_next_rem_code_phase_samples\<close> lies in the closed interval from \<open>-1/2\<close> to \<open>1/2\<close>.
  This holds for every rounding \<open>fl\<close> that leaves a float where it is and that makes
  the subtraction of line 481 exact, as rounding to nearest in single precision does; the
  real number \<open>(1023 / code_freq_hz) * fs + r\<close> can differ from the float
  \<open>K_blk_samples\<close>, and its nearest integer from the block length.
\<close>

theorem block_length_rule:
  assumes "fixes_floats fl" and "exact_remainder fl"
    and "start_tracking fl code_gen_conplex s0 = Inr s1"
    and "stream_steps fl inps s1 = Inr (s, outs)"
    and "d_enable_tracking s" and "\<not> d_pull_in s"
    and "general_work fl inp s = Inr (s', out)"
  shows "d_current_prn_length_samples s' =
           c_round (K_blk_samples fl (d_code_freq_hz s) (d_fs_in s) (d_rem_code_phase_samples s))
         \<and> - 1 / 2 \<le> d_next_rem_code_phase_samples s'
         \<and> d_next_rem_code_phase_samples s' \<le> 1 / 2
         \<and> (if isnan (fst (corr_Prompt inp)) \<or> isnan (snd (corr_Prompt inp))
             then d_rem_code_phase_samples s' = d_rem_code_phase_samples s
             else d_rem_code_phase_samples s' = d_next_rem_code_phase_samples s)"
proof -
  have i: "length_rule fl s"
    using stream_steps_length_rule
      [OF assms(2) start_tracking_length_rule [OF assms(1,3)] assms(4)] .
  have i': "length_rule fl s'" using general_work_length_rule [OF assms(2) i assms(7)] .
  have "d_current_prn_length_samples s' = d_next_prn_length_samples s"
    using armed_step_current [OF assms(5-7)] .
  moreover have "isnan (fst (corr_Prompt inp)) \<or> isnan (snd (corr_Prompt inp))
      \<Longrightarrow> d_rem_code_phase_samples s' = d_rem_code_phase_samples s"
  proof -
    assume n: "isnan (fst (corr_Prompt inp)) \<or> isnan (snd (corr_Prompt inp))"
    from assms(5-7) obtain t1 where
      c: "correlate fl inp (s\<lparr>d_current_prn_length_samples := d_next_prn_length_samples s\<rparr>) = Inr t1"
      by (auto simp: general_work_def split: sum.splits)
    from correlate_Inr [OF c] obtain r a where
      t1: "t1 = s\<lparr>d_current_prn_length_samples := d_next_prn_length_samples s,
                  d_rem_carr_phase_rad := r, d_acc_carrier_phase_rad := a,
                  d_Early := corr_Early inp, d_Prompt := corr_Prompt inp,
                  d_Late := corr_Late inp\<rparr>"
      by auto
    have "general_work fl inp s = Inr (nan_samples inp t1)"
      using assms(5,6) c n by (simp add: general_work_def t1)
    with assms(7) show ?thesis by (auto simp: nan_samples_def t1 Let_def)
  qed
  moreover have "\<not> (isnan (fst (corr_Prompt inp)) \<or> isnan (snd (corr_Prompt inp)))
      \<Longrightarrow> d_rem_code_phase_samples s' = d_next_rem_code_phase_samples s"
    using tracked_step_rem [OF assms(5,6) _ _ assms(7)] by simp
  ultimately show ?thesis using i i' by (simp add: length_rule_def)
qed

theorem block_length_rule_witness:
  "fixes_floats (\<lambda>x. x) \<and> exact_remainder (\<lambda>x. x)
   \<and> start_tracking (\<lambda>x. x) (\<lambda>prn. example_chips) (set_gnss_synchro acquired1 new_block)
       = Inr armed_block
   \<and> stream_steps (\<lambda>x. x) [idle_in] armed_block
       = Inr (aligned_block, [\<lparr>consumed = 524, produced = 1, out0 = stale_record\<rparr>])
   \<and> d_enable_tracking aligned_block \<and> \<not> d_pull_in aligned_block
   \<and> general_work (\<lambda>x. x) tie_in aligned_block = Inr (tracked_tie, tracked_tie_out)
   \<and> d_current_prn_length_samples tracked_tie = 524
   \<and> d_current_prn_length_samples tracked_tie =
         c_round (K_blk_samples (\<lambda>x. x) (d_code_freq_hz aligned_block) (d_fs_in aligned_block)
                    (d_rem_code_phase_samples aligned_block))
   \<and> - 1 / 2 \<le> d_next_rem_code_phase_samples tracked_tie
   \<and> d_next_rem_code_phase_samples tracked_tie \<le> 1 / 2
   \<and> d_rem_code_phase_samples tracked_tie = d_next_rem_code_phase_samples aligned_block"
proof -
  have r: "stream_steps (\<lambda>x. x) [idle_in] armed_block
             = Inr (aligned_block, [\<lparr>consumed = 524, produced = 1, out0 = stale_record\<rparr>])"
    by (simp add: aligned_block_reached)
  have a: "d_enable_tracking aligned_block" "\<not> d_pull_in aligned_block"
    by (simp_all add: ex_defs)
  have n: "\<not> (isnan (fst (corr_Prompt tie_in)) \<or> isnan (snd (corr_Prompt tie_in)))"
    by (simp add: ex_defs)
  have c: "d_current_prn_length_samples tracked_tie = 524" by (simp add: ex_defs)
  show ?thesis
    using block_length_rule [OF fixes_floats_exact exact_remainder_exact armed_block_reached r a
        tracked_tie_reached]
      fixes_floats_exact exact_remainder_exact armed_block_reached r a tracked_tie_reached n c
    by simp
qed

text \<open>
  C5 as stated fails at a rounding tie: \<^verbatim>\<open>round\<close> sends a positive half away from zero, so
  the remainder \<open>-1/2\<close> is reached. At a sampling frequency of 524288 Hz, a code NCO
  command of -25576 Hz gives a code frequency of 1048576 Hz and a block of exactly 511.5
  samples, rounded to 512. The numbers that lead to the block length are floats, so no
  operation on them rounds.
\<close>

theorem next_rem_reaches_minus_half:
  "d_enable_tracking aligned_block \<and> \<not> d_pull_in aligned_block
   \<and> d_next_rem_code_phase_samples aligned_block = 0
   \<and> map_sum id (d_code_freq_hz \<circ> fst) (general_work (\<lambda>x. x) tie_in aligned_block)
       = Inr 1048576
   \<and> map_sum id (d_next_prn_length_samples \<circ> fst) (general_work (\<lambda>x. x) tie_in aligned_block)
       = Inr 512
   \<and> map_sum id (d_next_rem_code_phase_samples \<circ> fst)
       (general_work (\<lambda>x. x) tie_in aligned_block) = Inr (- 1 / 2)"
  by (simp add: work_defs ex_defs)

subsection \<open>NaN in the Prompt output\<close>

text \<open>
  C6. On an armed post-pull-in call for which the replicas were resampled and the
  correlator ran, if the real or the imaginary part of the Prompt output is NaN, the call
  returns one output item whose record has \<open>Flag_valid_tracking\<close> false and
  \<open>Prompt_I\<close>, \<open>Prompt_Q\<close>, \<open>Carrier_phase_rads\<close>, \<open>Code_phase_secs\<close> and \<open>CN0_dB_hz\<close> at
  0, consumes all the available input samples, and leaves tracking enabled and out of
  pull-in, so that the next call is again an armed post-pull-in call.
\<close>

theorem nan_step:
  assumes "d_enable_tracking s" and "\<not> d_pull_in s"
    and "correlate fl inp (s\<lparr>d_current_prn_length_samples := d_next_prn_length_samples s\<rparr>)
           = Inr s1"
    and "isnan (fst (corr_Prompt inp)) \<or> isnan (snd (corr_Prompt inp))"
  shows "\<exists>s' out. general_work fl inp s = Inr (s', out)
           \<and> produced out = 1
           \<and> Flag_valid_tracking (out0 out) = False
           \<and> Prompt_I (out0 out) = Fin 0 \<and> Prompt_Q (out0 out) = Fin 0
           \<and> Carrier_phase_rads (out0 out) = 0 \<and> Code_phase_secs (out0 out) = 0
           \<and> CN0_dB_hz (out0 out) = Fin 0
           \<and> consumed out = ninput_items inp
           \<and> d_enable_tracking s' \<and> \<not> d_pull_in s'"
proof -
  from correlate_Inr [OF assms(3)] obtain r a where
    s1: "s1 = s\<lparr>d_current_prn_length_samples := d_next_prn_length_samples s,
                d_rem_carr_phase_rad := r, d_acc_carrier_phase_rad := a,
                d_Early := corr_Early inp, d_Prompt := corr_Prompt inp,
                d_Late := corr_Late inp\<rparr>"
    by auto
  have "general_work fl inp s = Inr (nan_samples inp s1)"
    using assms by (simp add: general_work_def s1)
  then show ?thesis
    using assms(1,2) by (simp add: nan_samples_def s1 Let_def)
qed

theorem nan_step_witness:
  "d_enable_tracking aligned_block \<and> \<not> d_pull_in aligned_block
   \<and> isnan (fst (corr_Prompt nan_in))
   \<and> (\<exists>s' out. general_work (\<lambda>x. x) nan_in aligned_block = Inr (s', out)
         \<and> produced out = 1
         \<and> Flag_valid_tracking (out0 out) = False
         \<and> Prompt_I (out0 out) = Fin 0 \<and> Prompt_Q (out0 out) = Fin 0
         \<and> Carrier_phase_rads (out0 out) = 0 \<and> Code_phase_secs (out0 out) = 0
         \<and> CN0_dB_hz (out0 out) = Fin 0
         \<and> consumed out = ninput_items nan_in
         \<and> d_enable_tracking s' \<and> \<not> d_pull_in s')"
proof -
  have a: "d_enable_tracking aligned_block" "\<not> d_pull_in aligned_block"
    "isnan (fst (corr_Prompt nan_in))"
    by (simp_all add: ex_defs)
  then have n: "isnan (fst (corr_Prompt nan_in)) \<or> isnan (snd (corr_Prompt nan_in))" by simp
  show ?thesis
    using a nan_step [OF a(1,2) correlate_aligned_block n] by blast
qed

subsection \<open>Loss of lock\<close>

text \<open>
  C7. When the detector is evaluated on an armed post-pull-in call and the failure counter
  it computes exceeds \<^verbatim>\<open>MAXIMUM_LOCK_FAIL_COUNTER\<close> (200), the call appends exactly one
  message 3 to the control sink and disables tracking; every later sequence of calls
  (none of them being \<^verbatim>\<open>start_tracking\<close>) runs to its end with one output per call,
  leaves tracking disabled and leaves the control sink as that call left it.
\<close>

theorem lock_loss:
  assumes "d_enable_tracking s" and "\<not> d_pull_in s"
    and "\<not> isnan (fst (corr_Prompt inp))" and "\<not> isnan (snd (corr_Prompt inp))"
    and "general_work fl inp s = Inr (s', out)"
    and "CN0_ESTIMATION_SAMPLES \<le> d_cn0_estimation_counter s"
    and "MAXIMUM_LOCK_FAIL_COUNTER
           < count_lock_fail (carrier_lock_fails (lock_detector inp) (d_carrier_lock_threshold s))
               (d_carrier_lock_fail_counter s)"
  shows "d_channel_internal_queue s' = d_channel_internal_queue s @ [3]
         \<and> \<not> d_enable_tracking s'
         \<and> (\<forall>inps. \<exists>s'' outs. stream_steps fl inps s' = Inr (s'', outs)
               \<and> length outs = length inps
               \<and> \<not> d_enable_tracking s''
               \<and> d_channel_internal_queue s'' = d_channel_internal_queue s')"
proof -
  from tracked_step_stages [OF assms(1-5)] obtain s1 s2 s3 where
    c: "correlate fl inp (s\<lparr>d_current_prn_length_samples := d_next_prn_length_samples s\<rparr>) = Inr s1"
    and b: "block_length_scheduler fl inp s1 = Inr s2"
    and l: "cn0_and_lock_detectors inp s2 = Inr s3"
    and e: "consume_and_count s3 (tracking_record s3) = Inr (s', out)"
    by blast
  from correlate_Inr [OF c] have f1:
    "d_channel_internal_queue s1 = d_channel_internal_queue s"
    "d_carrier_lock_fail_counter s1 = d_carrier_lock_fail_counter s"
    "d_carrier_lock_threshold s1 = d_carrier_lock_threshold s"
    "d_cn0_estimation_counter s1 = d_cn0_estimation_counter s"
    by auto
  note f2 = block_length_scheduler_Inr [OF b]
  have "d_channel_internal_queue s3 = d_channel_internal_queue s2 @ [3]" "\<not> d_enable_tracking s3"
    using cn0_and_lock_detectors_unlock [OF l] assms(6,7) f1 f2 by simp_all
  moreover note consume_and_count_Inr [OF e]
  ultimately have q: "d_channel_internal_queue s' = d_channel_internal_queue s @ [3]"
    and d: "\<not> d_enable_tracking s'" and fs: "d_fs_in s' \<noteq> 0"
    using f1 f2 by simp_all
  show ?thesis using q d disabled_steps [OF d fs] by blast
qed

theorem lock_loss_witness:
  "\<exists>s' out. general_work (\<lambda>x. x) idle_in failing_block = Inr (s', out)
     \<and> d_channel_internal_queue failing_block = []
     \<and> d_channel_internal_queue s' = [3]
     \<and> \<not> d_enable_tracking s'
     \<and> (\<forall>inps. \<exists>s'' outs. stream_steps (\<lambda>x. x) inps s' = Inr (s'', outs)
           \<and> length outs = length inps
           \<and> \<not> d_enable_tracking s''
           \<and> d_channel_internal_queue s'' = d_channel_internal_queue s')"
proof -
  have "\<exists>s' out. general_work (\<lambda>x. x) idle_in failing_block = Inr (s', out)"
    by (simp add: work_defs ex_defs)
  then obtain s' out where g: "general_work (\<lambda>x. x) idle_in failing_block = Inr (s', out)"
    by blast
  have a: "d_enable_tracking failing_block" "\<not> d_pull_in failing_block"
    "\<not> isnan (fst (corr_Prompt idle_in))" "\<not> isnan (snd (corr_Prompt idle_in))"
    by (simp_all add: ex_defs)
  have c: "CN0_ESTIMATION_SAMPLES \<le> d_cn0_estimation_counter failing_block"
    by (simp add: ex_defs CN0_ESTIMATION_SAMPLES_def)
  have m: "MAXIMUM_LOCK_FAIL_COUNTER
             < count_lock_fail
                 (carrier_lock_fails (lock_detector idle_in) (d_carrier_lock_threshold failing_block))
                 (d_carrier_lock_fail_counter failing_block)"
    by (simp add: ex_defs MAXIMUM_LOCK_FAIL_COUNTER_def MINIMUM_VALID_CN0_def count_lock_fail_def
        carrier_lock_fails_def)
  have q: "d_channel_internal_queue failing_block = []" by (simp add: ex_defs)
  show ?thesis
    using lock_loss [OF a g c m] g q by auto
qed

subsection \<open>The sample counter and its value in seconds\<close>

text \<open>
  C8. The specification states that \<open>d_sample_counter\<close> never decreases and that after
  every call \<open>d_sample_counter_seconds\<close> is \<open>d_sample_counter\<close> over the sampling
  frequency. The NaN path (lines 419 to 421) adds the available samples to
  \<open>d_sample_counter\<close> only, where the pull-in path and the end of \<^verbatim>\<open>general_work\<close> advance
  both. On the aligned block, 524 samples into the stream at 524288 Hz, a NaN Prompt
  output with 1048 samples available leaves the counter at 1572 and the seconds at
  524/524288.
\<close>

theorem nan_step_skips_seconds:
  "d_sample_counter aligned_block = 524
   \<and> d_sample_counter_seconds aligned_block
       = real (unat (d_sample_counter aligned_block)) / real_of_int (d_fs_in aligned_block)
   \<and> map_sum id (d_sample_counter \<circ> fst) (general_work (\<lambda>x. x) nan_in aligned_block) = Inr 1572
   \<and> map_sum id (d_sample_counter_seconds \<circ> fst) (general_work (\<lambda>x. x) nan_in aligned_block)
       = Inr (524 / 524288)
   \<and> map_sum id (d_fs_in \<circ> fst) (general_work (\<lambda>x. x) nan_in aligned_block) = Inr 524288"
  by (simp add: work_defs ex_defs)

end
